theory Spec2Isabelle
  imports Complex_Main "HOL-Library.Monad_Syntax"
begin

section \<open>JavaScript values as the dashboard client uses them\<close>

text \<open>
  The client (\<^verbatim>\<open>static/app.js\<close>, class \<^verbatim>\<open>PCMonitor\<close>) receives one JSON
  document per WebSocket message and reads it with untyped property accesses, truthiness
  tests, \<^verbatim>\<open>||\<close> defaults and \<^verbatim>\<open>?.\<close> chains. The model therefore keeps
  frames as untyped values.

  An object is the list of its own properties, each key once. A string is a list of
  code units below 256.
\<close>

subsection \<open>Numbers: IEEE 754 doubles\<close>

text \<open>
  A JavaScript number is a double. \<open>Fin r\<close> is written with a rational \<open>r\<close>, the value
  of a numeric literal (of the frame's JSON text or of the client's code), and stands for
  the double nearest to \<open>r\<close>, which is what reading the literal yields; every operation
  below starts from that double and rounds its exact result to a double again. The two
  zeros are one value here: the client never divides by a computed number, and no
  other operation it uses tells them apart (both print as \<^verbatim>\<open>0\<close>, both are falsy).
\<close>

datatype jsnum = Fin rat | NaN | PosInf | NegInf

text \<open>The number of binary digits of a positive integer.\<close>

function bit_length :: "int \<Rightarrow> nat" where
  "bit_length n = (if n \<le> 0 then 0 else Suc (bit_length (n div 2)))"
  by pat_completeness auto
termination
  by (relation "measure nat") auto

declare bit_length.simps [simp del]

definition pow2 :: "int \<Rightarrow> rat" where
  "pow2 e = (if 0 \<le> e then 2 ^ nat e else 1 / 2 ^ nat (- e))"

definition pow10 :: "int \<Rightarrow> rat" where
  "pow10 e = (if 0 \<le> e then 10 ^ nat e else 1 / 10 ^ nat (- e))"

text \<open>The \<open>e\<close> with \<open>2^e \<le> a < 2^(e+1)\<close>, for \<open>a > 0\<close>.\<close>

definition binary_exponent :: "rat \<Rightarrow> int" where
  "binary_exponent a =
     (let (p, q) = quotient_of a;
          e0 = int (bit_length p) - int (bit_length q)
      in if pow2 e0 \<le> a then e0 else e0 - 1)"

text \<open>Rounding to the nearest integer, to the even one at a tie.\<close>

definition round_half_even :: "rat \<Rightarrow> int" where
  "round_half_even x =
     (let f = \<lfloor>x\<rfloor>; d = x - of_int f
      in if d < 1 / 2 then f
         else if 1 / 2 < d then f + 1
         else if even f then f else f + 1)"

text \<open>
  The double nearest to a rational (round to nearest, ties to even): 53 significant bits
  from \<open>2^-1022\<close> on, multiples of \<open>2^-1074\<close> below, an infinity from \<open>2^1024\<close> on (the
  rounded value reaches \<open>2^1024\<close> when the exponent is at least 1024, or is 1023 and the
  significand rounds up to \<open>2^53\<close>).
\<close>

definition to_double :: "rat \<Rightarrow> jsnum" where
  "to_double r =
     (if r = 0 then Fin 0
      else
        (let a = \<bar>r\<bar>;
             e = binary_exponent a;
             u = (if e < - 1022 then - 1074 else e - 52);
             m = round_half_even (a / pow2 u)
         in if 1024 \<le> e \<or> (e = 1023 \<and> m = 9007199254740992)
            then (if r < 0 then NegInf else PosInf)
            else Fin (if r < 0 then - (of_int m * pow2 u) else of_int m * pow2 u)))"

definition is_double :: "rat \<Rightarrow> bool" where
  "is_double r = (to_double r = Fin r)"

text \<open>The double a number stands for.\<close>

fun as_double :: "jsnum \<Rightarrow> jsnum" where
  "as_double (Fin r) = to_double r"
| "as_double NaN = NaN"
| "as_double PosInf = PosInf"
| "as_double NegInf = NegInf"


subsection \<open>Values\<close>

datatype jsval =
    Undefined
  | Null
  | Bool bool
  | Num jsnum
  | Str string
  | Arr "jsval list"
  | Obj "(string \<times> jsval) list"

datatype js_error = TypeError | SyntaxError

datatype completion = Normal | Throw js_error

text \<open>ToBoolean, as \<^verbatim>\<open>if (x)\<close>, \<^verbatim>\<open>x || d\<close> and \<^verbatim>\<open>x ? a : b\<close> apply it.\<close>

fun truthy :: "jsval \<Rightarrow> bool" where
  "truthy Undefined = False"
| "truthy Null = False"
| "truthy (Bool b) = b"
| "truthy (Num NaN) = False"
| "truthy (Num (Fin r)) = (to_double r \<noteq> Fin 0)"
| "truthy (Num PosInf) = True"
| "truthy (Num NegInf) = True"
| "truthy (Str s) = (s \<noteq> [])"
| "truthy (Arr xs) = True"
| "truthy (Obj kvs) = True"

text \<open>\<^verbatim>\<open>a || b\<close>\<close>

definition or_else :: "jsval \<Rightarrow> jsval \<Rightarrow> jsval" where
  "or_else a b = (if truthy a then a else b)"

text \<open>
  \<^verbatim>\<open>a === b\<close> where one side is a number, a string, \<^verbatim>\<open>null\<close> or \<^verbatim>\<open>undefined\<close>
  (the client compares with nothing else): numbers are compared as doubles, and \<open>NaN\<close>
  equals nothing.
\<close>

fun strict_equal :: "jsval \<Rightarrow> jsval \<Rightarrow> bool" where
  "strict_equal (Num x) (Num y) = (as_double x \<noteq> NaN \<and> as_double x = as_double y)"
| "strict_equal a b = (a = b)"

text \<open>
  A property read \<^verbatim>\<open>v.k\<close> for the keys the client reads (none of them is a member
  of a built-in prototype other than \<^verbatim>\<open>length\<close>). \<open>None\<close>: the read throws a
  TypeError, which it does exactly on \<^verbatim>\<open>undefined\<close> and \<^verbatim>\<open>null\<close>.
\<close>

fun get :: "jsval \<Rightarrow> string \<Rightarrow> jsval option" where
  "get Undefined k = None"
| "get Null k = None"
| "get (Obj kvs) k = Some (case map_of kvs k of None \<Rightarrow> Undefined | Some v \<Rightarrow> v)"
| "get (Arr xs) k = Some (if k = ''length'' then Num (Fin (of_nat (length xs))) else Undefined)"
| "get (Str s) k = Some (if k = ''length'' then Num (Fin (of_nat (length s))) else Undefined)"
| "get (Bool b) k = Some Undefined"
| "get (Num n) k = Some Undefined"

subsection \<open>Printing numbers\<close>

definition digit_char :: "nat \<Rightarrow> char" where
  "digit_char n = ''0123456789'' ! (n mod 10)"

function string_of_nat :: "nat \<Rightarrow> string" where
  "string_of_nat n =
     (if n < 10 then [digit_char n] else string_of_nat (n div 10) @ [digit_char n])"
  by pat_completeness auto
termination
  by (relation "measure id") auto

declare string_of_nat.simps [simp del]

text \<open>The decimal digits of an integer that is not negative.\<close>

function decimal_digits :: "int \<Rightarrow> string" where
  "decimal_digits n =
     (if n < 10 then [digit_char (nat n)]
      else decimal_digits (n div 10) @ [digit_char (nat (n mod 10))])"
  by pat_completeness auto
termination
  by (relation "measure nat") auto

declare decimal_digits.simps [simp del]

text \<open>The \<open>n\<close> with \<open>10^(n-1) \<le> a < 10^n\<close>, for \<open>a > 0\<close>.\<close>

definition decimal_exponent :: "rat \<Rightarrow> int" where
  "decimal_exponent a =
     (let (p, q) = quotient_of a;
          n0 = int (length (decimal_digits p)) - int (length (decimal_digits q))
      in if pow10 n0 \<le> a then n0 + 1 else n0)"

text \<open>
  Number::toString picks integers \<open>n\<close>, \<open>k\<close>, \<open>s\<close> with \<open>s\<close> of \<open>k\<close> digits such that
  \<open>s * 10^(n-k)\<close> reads back as the number, \<open>k\<close> as small as possible and, among those,
  \<open>s * 10^(n-k)\<close> closest to the number (the even \<open>s\<close> at a tie). For a given \<open>k\<close> the
  closest candidates are the two multiples of \<open>10^(n-k)\<close> around the number;
  \<open>digits_at\<close> is the better of them that reads back, if one does. The upper one can
  be \<open>10^k\<close>, which is the digit 1 with the next \<open>n\<close>.
\<close>

definition digits_at :: "rat \<Rightarrow> int \<Rightarrow> nat \<Rightarrow> int option" where
  "digits_at a n k =
     (let scale = pow10 (n - int k);
          lo = \<lfloor>a / scale\<rfloor>;
          hi = lo + 1;
          lo_ok = (to_double (of_int lo * scale) = Fin a);
          hi_ok = (to_double (of_int hi * scale) = Fin a);
          dl = a - of_int lo * scale;
          dh = of_int hi * scale - a
      in if lo_ok \<and> hi_ok
         then Some (if dl < dh then lo else if dh < dl then hi
                    else if even lo then lo else hi)
         else if lo_ok then Some lo
         else if hi_ok then Some hi
         else None)"

text \<open>
  The search for the least \<open>k\<close>, from \<open>k\<close> upwards. 17 digits identify every double,
  so started at 1 with 17 steps it ends at a \<open>Some\<close>.
\<close>

fun shortest_digits :: "nat \<Rightarrow> rat \<Rightarrow> int \<Rightarrow> nat \<Rightarrow> int \<times> nat" where
  "shortest_digits 0 a n k = (\<lfloor>a / pow10 (n - int k)\<rfloor>, k)"
| "shortest_digits (Suc fuel) a n k =
     (case digits_at a n k of
        Some s \<Rightarrow> (s, k)
      | None \<Rightarrow> shortest_digits fuel a n (Suc k))"

text \<open>The notation Number::toString chooses for the digits \<open>ds\<close> and the exponent \<open>n\<close>.\<close>

definition number_notation :: "string \<Rightarrow> int \<Rightarrow> string" where
  "number_notation ds n =
     (let k = int (length ds)
      in if k \<le> n \<and> n \<le> 21 then ds @ replicate (nat (n - k)) (CHR ''0'')
         else if 0 < n \<and> n \<le> 21 then take (nat n) ds @ ''.'' @ drop (nat n) ds
         else if - 6 < n \<and> n \<le> 0 then ''0.'' @ replicate (nat (- n)) (CHR ''0'') @ ds
         else
           (let e = n - 1;
                es = (if e < 0 then ''-'' else ''+'') @ decimal_digits \<bar>e\<bar>
            in if k = 1 then ds @ ''e'' @ es
               else take 1 ds @ ''.'' @ drop 1 ds @ ''e'' @ es))"

text \<open>Number::toString of a positive double.\<close>

definition string_of_positive :: "rat \<Rightarrow> string" where
  "string_of_positive a =
     (let n = decimal_exponent a;
          (s, k) = shortest_digits 17 a n 1;
          ds = decimal_digits s;
          n' = n + (int (length ds) - int k);
          ds' = rev (dropWhile (\<lambda>c. c = CHR ''0'') (rev ds))
      in number_notation ds' n')"

text \<open>Number::toString, as string concatenation and template literals apply it.\<close>

definition string_of_num :: "jsnum \<Rightarrow> string" where
  "string_of_num x =
     (case as_double x of
        NaN \<Rightarrow> ''NaN''
      | PosInf \<Rightarrow> ''Infinity''
      | NegInf \<Rightarrow> ''-Infinity''
      | Fin r \<Rightarrow>
          if r = 0 then ''0''
          else (if r < 0 then ''-'' else '''') @ string_of_positive \<bar>r\<bar>)"

text \<open>
  \<^verbatim>\<open>Number.prototype.toFixed(d)\<close>: the sign, then the integer \<open>n\<close> for which
  \<open>n / 10^d\<close> is nearest to the exact value of the double \<open>|x|\<close> (the larger \<open>n\<close> at a
  tie), with the decimal point \<open>d\<close> digits from the right. From \<open>1e21\<close> on ECMAScript
  prints Number::toString instead.
\<close>

definition fixed_digits :: "rat \<Rightarrow> nat \<Rightarrow> string" where
  "fixed_digits a d =
     (let ds = decimal_digits \<lfloor>a * 10 ^ d + 1 / 2\<rfloor>;
          padded = replicate (Suc d - length ds) (CHR ''0'') @ ds;
          k = length padded - d
      in take k padded @ (if d = 0 then '''' else ''.'' @ drop k padded))"

definition num_toFixed :: "jsnum \<Rightarrow> nat \<Rightarrow> string" where
  "num_toFixed x d =
     (case as_double x of
        NaN \<Rightarrow> ''NaN''
      | PosInf \<Rightarrow> ''Infinity''
      | NegInf \<Rightarrow> ''-Infinity''
      | Fin r \<Rightarrow>
          if \<bar>r\<bar> \<ge> 10 ^ 21 then string_of_num (Fin r)
          else (if r < 0 then ''-'' else '''') @ fixed_digits \<bar>r\<bar> d)"

text \<open>
  \<^verbatim>\<open>v.toFixed(d)\<close> on a frame value: only a number has the method; on
  \<^verbatim>\<open>undefined\<close>, \<^verbatim>\<open>null\<close> and every other JSON value the call throws a TypeError.
\<close>

fun toFixed :: "jsval \<Rightarrow> nat \<Rightarrow> string option" where
  "toFixed (Num x) d = Some (num_toFixed x d)"
| "toFixed v d = None"

text \<open>\<^verbatim>\<open>v?.toFixed(d)\<close>: \<^verbatim>\<open>undefined\<close> when \<open>v\<close> is \<^verbatim>\<open>undefined\<close> or \<^verbatim>\<open>null\<close>.\<close>

fun opt_toFixed :: "jsval \<Rightarrow> nat \<Rightarrow> jsval option" where
  "opt_toFixed Undefined d = Some Undefined"
| "opt_toFixed Null d = Some Undefined"
| "opt_toFixed v d = map_option Str (toFixed v d)"

subsection \<open>ToString and ToNumber\<close>

definition join :: "string \<Rightarrow> string list \<Rightarrow> string" where
  "join sep xs = concat (case xs of [] \<Rightarrow> [] | y # ys \<Rightarrow> y # map ((@) sep) ys)"

text \<open>ToString, as a template literal \<^verbatim>\<open>`${v}`\<close> applies it.\<close>

fun to_string :: "jsval \<Rightarrow> string" where
  "to_string Undefined = ''undefined''"
| "to_string Null = ''null''"
| "to_string (Bool b) = (if b then ''true'' else ''false'')"
| "to_string (Num x) = string_of_num x"
| "to_string (Str s) = s"
| "to_string (Arr xs) =
     join '','' (map (\<lambda>v. if v = Undefined \<or> v = Null then '''' else to_string v) xs)"
| "to_string (Obj kvs) = ''[object Object]''"

definition is_digit :: "char \<Rightarrow> bool" where
  "is_digit c = (c \<in> set ''0123456789'')"

text \<open>
  The white space and line terminators StringToNumber strips, among the code units below
  256: tab, line feed, vertical tab, form feed, carriage return, space and the no-break
  space U+00A0.
\<close>

definition is_space :: "char \<Rightarrow> bool" where
  "is_space c =
     (c \<in> {CHR '' '', CHR 0x09, CHR 0x0A, CHR 0x0B, CHR 0x0C, CHR 0x0D, CHR 0xA0})"

definition digits_value :: "string \<Rightarrow> int" where
  "digits_value ds = foldl (\<lambda>n c. 10 * n + (of_char c - 48)) 0 ds"

text \<open>The exponent part of a decimal literal: empty, or \<^verbatim>\<open>e\<close>, a sign, digits.\<close>

definition exponent_of :: "string \<Rightarrow> int option" where
  "exponent_of s =
     (case s of
        [] \<Rightarrow> Some 0
      | c # t \<Rightarrow>
          if c = CHR ''e'' \<or> c = CHR ''E'' then
            (let neg = (t \<noteq> [] \<and> hd t = CHR ''-'');
                 ds = (if t \<noteq> [] \<and> (hd t = CHR ''-'' \<or> hd t = CHR ''+'') then tl t else t)
             in if ds \<noteq> [] \<and> list_all is_digit ds
                then Some (if neg then - digits_value ds else digits_value ds)
                else None)
          else None)"

definition unsigned_decimal :: "string \<Rightarrow> rat option" where
  "unsigned_decimal s =
     (let ip = takeWhile is_digit s; r1 = dropWhile is_digit s;
          dot = (r1 \<noteq> [] \<and> hd r1 = CHR ''.'');
          fp = (if dot then takeWhile is_digit (tl r1) else []);
          r2 = (if dot then dropWhile is_digit (tl r1) else r1)
      in if ip = [] \<and> fp = [] then None
         else map_option
                (\<lambda>e. (of_int (digits_value ip) + of_int (digits_value fp) / 10 ^ length fp)
                        * pow10 e)
                (exponent_of r2))"

text \<open>The digits of the \<^verbatim>\<open>0x\<close>, \<^verbatim>\<open>0o\<close> and \<^verbatim>\<open>0b\<close> literals (no sign).\<close>

definition digit_of :: "char \<Rightarrow> int option" where
  "digit_of c =
     (let n = (of_char c :: int)
      in if 48 \<le> n \<and> n \<le> 57 then Some (n - 48)
         else if 97 \<le> n \<and> n \<le> 102 then Some (n - 87)
         else if 65 \<le> n \<and> n \<le> 70 then Some (n - 55)
         else None)"

definition radix_digits :: "int \<Rightarrow> string \<Rightarrow> int option" where
  "radix_digits b ds =
     (if ds = [] then None
      else fold (\<lambda>c acc. case (acc, digit_of c) of
                           (Some n, Some d) \<Rightarrow> if d < b then Some (b * n + d) else None
                         | _ \<Rightarrow> None)
             ds (Some 0))"

definition radix_literal :: "string \<Rightarrow> int option" where
  "radix_literal s =
     (case s of
        c0 # c1 # ds \<Rightarrow>
          if c0 \<noteq> CHR ''0'' then None
          else if c1 = CHR ''x'' \<or> c1 = CHR ''X'' then radix_digits 16 ds
          else if c1 = CHR ''o'' \<or> c1 = CHR ''O'' then radix_digits 8 ds
          else if c1 = CHR ''b'' \<or> c1 = CHR ''B'' then radix_digits 2 ds
          else None
      | _ \<Rightarrow> None)"

text \<open>
  StringToNumber: surrounding white space is dropped; the empty string is 0; a signed
  decimal literal or \<^verbatim>\<open>Infinity\<close>, or an unsigned \<^verbatim>\<open>0x\<close>, \<^verbatim>\<open>0o\<close> or \<^verbatim>\<open>0b\<close>
  literal, is its value as a double; anything else is \<open>NaN\<close>.
\<close>

definition string_to_num :: "string \<Rightarrow> jsnum" where
  "string_to_num s0 =
     (let s = rev (dropWhile is_space (rev (dropWhile is_space s0)))
      in if s = [] then Fin 0
         else
           (case radix_literal s of
              Some n \<Rightarrow> to_double (of_int n)
            | None \<Rightarrow>
                (let neg = (hd s = CHR ''-'');
                     body = (if hd s = CHR ''-'' \<or> hd s = CHR ''+'' then tl s else s)
                 in if body = ''Infinity'' then (if neg then NegInf else PosInf)
                    else
                      (case unsigned_decimal body of
                         None \<Rightarrow> NaN
                       | Some r \<Rightarrow> to_double (if neg then - r else r)))))"

text \<open>ToNumber, as the arithmetic operators, comparisons and \<^verbatim>\<open>Math\<close> functions apply it.\<close>

fun to_number :: "jsval \<Rightarrow> jsnum" where
  "to_number Undefined = NaN"
| "to_number Null = Fin 0"
| "to_number (Bool b) = Fin (if b then 1 else 0)"
| "to_number (Num x) = x"
| "to_number (Str s) = string_to_num s"
| "to_number (Arr xs) = string_to_num (to_string (Arr xs))"
| "to_number (Obj kvs) = NaN"

subsection \<open>Arithmetic\<close>

text \<open>
  \<^verbatim>\<open>x / c\<close> for a positive numeric literal \<open>c\<close> that is a double (the client divides
  by 100, 1000 and 1024 only): the exact quotient, rounded.
\<close>

definition num_div :: "jsnum \<Rightarrow> rat \<Rightarrow> jsnum" where
  "num_div x c =
     (case as_double x of
        Fin a \<Rightarrow> to_double (a / c)
      | NaN \<Rightarrow> NaN
      | PosInf \<Rightarrow> PosInf
      | NegInf \<Rightarrow> NegInf)"

text \<open>The sign of a number that is not \<open>NaN\<close>.\<close>

definition num_sign :: "jsnum \<Rightarrow> int" where
  "num_sign x =
     (case x of
        Fin a \<Rightarrow> (if 0 < a then 1 else if a < 0 then - 1 else 0)
      | NaN \<Rightarrow> 0
      | PosInf \<Rightarrow> 1
      | NegInf \<Rightarrow> - 1)"

text \<open>
  \<^verbatim>\<open>x * y\<close>: the exact product, rounded; with an infinite factor the product is
  infinite with the product of the signs, and \<open>NaN\<close> when the other factor is zero.
\<close>

definition num_mul :: "jsnum \<Rightarrow> jsnum \<Rightarrow> jsnum" where
  "num_mul x y =
     (let a = as_double x; b = as_double y
      in if a = NaN \<or> b = NaN then NaN
         else
           (case (a, b) of
              (Fin p, Fin q) \<Rightarrow> to_double (p * q)
            | _ \<Rightarrow>
                (let sg = num_sign a * num_sign b
                 in if sg = 0 then NaN else if 0 < sg then PosInf else NegInf)))"

text \<open>\<^verbatim>\<open>x >= c\<close> for a literal \<open>c\<close> that is a double: false when \<open>x\<close> is \<open>NaN\<close>.\<close>

definition num_ge :: "jsnum \<Rightarrow> rat \<Rightarrow> bool" where
  "num_ge x c =
     (case as_double x of
        Fin a \<Rightarrow> c \<le> a
      | NaN \<Rightarrow> False
      | PosInf \<Rightarrow> True
      | NegInf \<Rightarrow> False)"

text \<open>
  \<^verbatim>\<open>Math.min(x, c)\<close> for a literal \<open>c\<close> that is a double: \<open>NaN\<close> when \<open>x\<close> is. (For
  a finite \<open>x\<close> the result is written with the lesser rational: rounding is monotone and
  keeps \<open>c\<close>, so it stands for the lesser double.)
\<close>

fun math_min :: "jsnum \<Rightarrow> rat \<Rightarrow> jsnum" where
  "math_min (Fin a) c = Fin (min a c)"
| "math_min NaN c = NaN"
| "math_min PosInf c = Fin c"
| "math_min NegInf c = NegInf"

text \<open>\<^verbatim>\<open>Math.round\<close>: the nearest integer, the larger one at a tie.\<close>

definition math_round :: "jsnum \<Rightarrow> jsnum" where
  "math_round x =
     (case as_double x of
        Fin a \<Rightarrow> Fin (of_int \<lfloor>a + 1 / 2\<rfloor>)
      | NaN \<Rightarrow> NaN
      | PosInf \<Rightarrow> PosInf
      | NegInf \<Rightarrow> NegInf)"

text \<open>\<^verbatim>\<open>x > c\<close> for a literal \<open>c\<close> that is a double: false when \<open>x\<close> is \<open>NaN\<close>.\<close>

definition num_gt :: "jsnum \<Rightarrow> rat \<Rightarrow> bool" where
  "num_gt x c =
     (case as_double x of
        Fin a \<Rightarrow> c < a
      | NaN \<Rightarrow> False
      | PosInf \<Rightarrow> True
      | NegInf \<Rightarrow> False)"

section \<open>The page and the monitor object\<close>

text \<open>
  The page's markup is not part of the repository; the client looks every element up by
  its id and guards each use with \<^verbatim>\<open>if (el)\<close>, so the document is a partial map from
  ids to elements and every operation says what it does when the element is missing.
  \<open>innerHTML\<close> holds the entries a list panel was rendered from (the strings the
  template interpolates; the fixed markup around them is left out).
\<close>

record fan_item =
  fan_name :: string
  fan_bar_width :: string
  fan_speed :: "(string \<times> string) list"

record process_item =
  process_name :: string
  process_cpu :: string
  process_mem :: string

record drive_item =
  drive_title :: string
  drive_name :: string
  drive_details :: string
  drive_size :: string

datatype html =
    Markup
  | NoFans
  | Fans "fan_item list"
  | Processes "process_item list"
  | Drives "drive_item list"
  | CoreBars nat

text \<open>
  \<open>fill\<close> is the \<^verbatim>\<open>.gauge-fill\<close> descendant of a gauge: \<open>None\<close> when there is none,
  \<open>Some None\<close> before the first update, \<open>Some (Some (r, p))\<close> once the stroke was set
  from radius \<open>r\<close> and fraction \<open>p\<close> (strokeDasharray is \<open>2\<pi>r\<close>, strokeDashoffset is
  \<open>2\<pi>r(1 - p)\<close>). \<open>gauge_text\<close> is the text of the \<^verbatim>\<open>.gauge-text\<close> descendant.
  \<open>child_count\<close> is \<^verbatim>\<open>children.length\<close>.
\<close>

record elem =
  textContent :: string
  innerHTML :: html
  child_count :: nat
  classList :: "string list"
  style :: "string \<rightharpoonup> string"
  fill :: "(nat \<times> jsnum) option option"
  gauge_text :: "string option"

text \<open>
  A chart of the charting library: the data arrays of its datasets, and what the library
  last drew (\<^verbatim>\<open>new Chart\<close> and \<^verbatim>\<open>chart.update\<close> draw the current data).
\<close>

record chart =
  datasets :: "jsval list list"
  rendered :: "jsval list list"

datatype ready_state = Connecting | Opened | Closed

text \<open>
  The \<^verbatim>\<open>PCMonitor\<close> object with the part of the browser it acts on: the document, the
  console, every WebSocket it has constructed (with its URL and state), the pending
  \<^verbatim>\<open>setTimeout\<close> callbacks (each is \<^verbatim>\<open>() => this.connect()\<close>, kept as the time it
  is due) and the time in milliseconds.
\<close>

record monitor =
  ws :: "nat option"
  charts :: "string \<rightharpoonup> chart"
  maxHistoryLength :: nat
  totalMemoryGB :: jsval
  document :: "string \<rightharpoonup> elem"
  location_protocol :: string
  location_host :: string
  console :: "string list"
  sockets :: "(string \<times> ready_state) list"
  timers :: "nat list"
  clock :: nat

text \<open>
  A statement runs on the monitor and completes normally or throws; what it changed
  before throwing stays changed.
\<close>

type_synonym stmt = "monitor \<Rightarrow> completion \<times> monitor"

definition skip :: stmt where
  "skip s = (Normal, s)"

definition effect :: "(monitor \<Rightarrow> monitor) \<Rightarrow> stmt" where
  "effect f s = (Normal, f s)"

definition and_then :: "stmt \<Rightarrow> stmt \<Rightarrow> stmt" where
  "and_then f g s = (case f s of (Normal, s') \<Rightarrow> g s' | (Throw e, s') \<Rightarrow> (Throw e, s'))"

text \<open>Evaluating an expression that may throw a TypeError (\<open>None\<close>), then using its value.\<close>

definition evaluate :: "'a option \<Rightarrow> ('a \<Rightarrow> stmt) \<Rightarrow> stmt" where
  "evaluate e k s = (case e of None \<Rightarrow> (Throw TypeError, s) | Some v \<Rightarrow> k v s)"

definition block :: "stmt list \<Rightarrow> stmt" where
  "block fs = foldr and_then fs skip"

text \<open>\<^verbatim>\<open>data.a.b\<close>\<close>

definition get2 :: "jsval \<Rightarrow> string \<Rightarrow> string \<Rightarrow> jsval option" where
  "get2 v a b = do { x \<leftarrow> get v a; get x b }"

subsection \<open>Charts: the sliding windows\<close>

definition createChart :: "string \<Rightarrow> monitor \<Rightarrow> monitor" where
  "createChart canvasId s =
     (case document s canvasId of
        None \<Rightarrow> s
      | Some canvas \<Rightarrow>
          s\<lparr>charts := (charts s)(canvasId \<mapsto>
               \<lparr>datasets = [replicate 60 Null], rendered = [replicate 60 Null]\<rparr>)\<rparr>)"

definition createDualChart :: "string \<Rightarrow> monitor \<Rightarrow> monitor" where
  "createDualChart canvasId s =
     (case document s canvasId of
        None \<Rightarrow> s
      | Some canvas \<Rightarrow>
          s\<lparr>charts := (charts s)(canvasId \<mapsto>
               \<lparr>datasets = [replicate 60 Null, replicate 60 Null],
                rendered = [replicate 60 Null, replicate 60 Null]\<rparr>)\<rparr>)"

definition setupCharts :: "monitor \<Rightarrow> monitor" where
  "setupCharts s =
     createDualChart ''disk-chart''
       (createDualChart ''network-chart''
         (createChart ''memory-chart''
           (createChart ''gpu-chart''
             (createChart ''cpu-chart'' s))))"

text \<open>\<^verbatim>\<open>data.push(v); data.shift()\<close>\<close>

definition push_shift :: "jsval list \<Rightarrow> jsval \<Rightarrow> jsval list" where
  "push_shift xs v = tl (xs @ [v])"

text \<open>
  \<^verbatim>\<open>chart.data.datasets[0]\<close> of a chart without datasets is \<^verbatim>\<open>undefined\<close>, and reading
  its \<^verbatim>\<open>data\<close> throws; likewise \<^verbatim>\<open>datasets[1]\<close> of a chart with one dataset, after
  the first series has been advanced.
\<close>

definition updateChart :: "string \<Rightarrow> jsval \<Rightarrow> stmt" where
  "updateChart chartId v s =
     (case charts s chartId of
        None \<Rightarrow> (Normal, s)
      | Some c \<Rightarrow>
          (case datasets c of
             [] \<Rightarrow> (Throw TypeError, s)
           | d0 # ds \<Rightarrow>
               (Normal, s\<lparr>charts := (charts s)(chartId \<mapsto>
                  \<lparr>datasets = push_shift d0 v # ds, rendered = push_shift d0 v # ds\<rparr>)\<rparr>)))"

definition updateDualChart :: "string \<Rightarrow> jsval \<Rightarrow> jsval \<Rightarrow> stmt" where
  "updateDualChart chartId v1 v2 s =
     (case charts s chartId of
        None \<Rightarrow> (Normal, s)
      | Some c \<Rightarrow>
          (case datasets c of
             [] \<Rightarrow> (Throw TypeError, s)
           | [d0] \<Rightarrow>
               (Throw TypeError,
                s\<lparr>charts := (charts s)(chartId \<mapsto> c\<lparr>datasets := [push_shift d0 v1]\<rparr>)\<rparr>)
           | d0 # d1 # ds \<Rightarrow>
               (Normal, s\<lparr>charts := (charts s)(chartId \<mapsto>
                  \<lparr>datasets = push_shift d0 v1 # push_shift d1 v2 # ds,
                   rendered = push_shift d0 v1 # push_shift d1 v2 # ds\<rparr>)\<rparr>)))"

subsection \<open>Writing to the page\<close>

text \<open>Assigning to \<^verbatim>\<open>textContent\<close> converts the value to a string.\<close>

definition dom_string :: "jsval \<Rightarrow> string" where
  "dom_string v = (if v = Null \<or> v = Undefined then '''' else to_string v)"

definition setText :: "string \<Rightarrow> jsval \<Rightarrow> monitor \<Rightarrow> monitor" where
  "setText i v s =
     (case document s i of
        None \<Rightarrow> s
      | Some el \<Rightarrow> s\<lparr>document := (document s)(i \<mapsto> el\<lparr>textContent := dom_string v\<rparr>)\<rparr>)"

definition updateMiniGauge :: "string \<Rightarrow> jsval \<Rightarrow> monitor \<Rightarrow> monitor" where
  "updateMiniGauge gaugeId v s =
     (case document s gaugeId of
        None \<Rightarrow> s
      | Some gauge \<Rightarrow>
          (case fill gauge of
             None \<Rightarrow> s
           | Some f \<Rightarrow>
               (let percentage = math_min (num_div (to_number v) 100) 1;
                    radius = (if ''large-gauge'' \<in> set (classList gauge) then 42 else 20)
                in s\<lparr>document := (document s)(gaugeId \<mapsto>
                       gauge\<lparr>fill := Some (Some (radius, percentage))\<rparr>)\<rparr>)))"

definition updateProgressBar :: "string \<Rightarrow> jsval \<Rightarrow> monitor \<Rightarrow> monitor" where
  "updateProgressBar i percent s =
     (case document s i of
        None \<Rightarrow> s
      | Some el \<Rightarrow>
          s\<lparr>document := (document s)(i \<mapsto>
               el\<lparr>style := (style el)(''width'' \<mapsto>
                    string_of_num (math_min (to_number percent) 100) @ ''%'')\<rparr>)\<rparr>)"

text \<open>Assigning \<^verbatim>\<open>innerHTML\<close> replaces the children of the container.\<close>

definition set_innerHTML :: "string \<Rightarrow> html \<Rightarrow> nat \<Rightarrow> monitor \<Rightarrow> monitor" where
  "set_innerHTML i h n s =
     (case document s i of
        None \<Rightarrow> s
      | Some el \<Rightarrow> s\<lparr>document := (document s)(i \<mapsto> el\<lparr>innerHTML := h, child_count := n\<rparr>)\<rparr>)"

definition set_text :: "string \<Rightarrow> jsval option \<Rightarrow> stmt" where
  "set_text i e = evaluate e (\<lambda>v. effect (setText i v))"

subsection \<open>Per-core bars\<close>

text \<open>
  The children of \<^verbatim>\<open>#cpu-core-bars\<close> are taken to be the bars this function generated
  (ids \<^verbatim>\<open>core-bar-0\<close>, \<^verbatim>\<open>core-bar-1\<close>, ...): rebuilding removes the old ones from the
  document and inserts fresh ones.
\<close>

definition core_bar_id :: "nat \<Rightarrow> string" where
  "core_bar_id i = ''core-bar-'' @ string_of_nat i"

definition new_core_bar :: elem where
  "new_core_bar =
     \<lparr>textContent = '''', innerHTML = Markup, child_count = 0,
      classList = [''core-bar-fill''], style = Map.empty, fill = None, gauge_text = None\<rparr>"

definition rebuild_core_bars :: "nat \<Rightarrow> monitor \<Rightarrow> monitor" where
  "rebuild_core_bars n s =
     (case document s ''cpu-core-bars'' of
        None \<Rightarrow> s
      | Some container \<Rightarrow>
          s\<lparr>document :=
               (fold (\<lambda>i d. d(core_bar_id i \<mapsto> new_core_bar)) [0..<n]
                  (fold (\<lambda>i d. d(core_bar_id i := None)) [0..<child_count container]
                     (document s)))
               (''cpu-core-bars'' \<mapsto> container\<lparr>innerHTML := CoreBars n, child_count := n\<rparr>)\<rparr>)"

definition set_core_bar :: "nat \<times> jsval \<Rightarrow> monitor \<Rightarrow> monitor" where
  "set_core_bar iu s =
     (case document s (core_bar_id (fst iu)) of
        None \<Rightarrow> s
      | Some bar \<Rightarrow>
          (let percent = string_of_num (math_min (to_number (snd iu)) 100)
           in s\<lparr>document := (document s)(core_bar_id (fst iu) \<mapsto>
                  bar\<lparr>style := (style bar)
                    (''--bar-height'' \<mapsto> percent @ ''%'',
                     ''background'' \<mapsto>
                        ''linear-gradient(to top, var(--accent-green) '' @ percent @
                        ''%, var(--bg-secondary) '' @ percent @ ''%)'')\<rparr>)\<rparr>))"

text \<open>
  \<^verbatim>\<open>perCore.map\<close> and \<^verbatim>\<open>perCore.forEach\<close> exist on arrays only: a string or an object
  with a truthy \<^verbatim>\<open>length\<close> gets past the guard and the call throws.
\<close>

definition updateCoreBars :: "jsval \<Rightarrow> stmt" where
  "updateCoreBars perCore s =
     (case document s ''cpu-core-bars'' of
        None \<Rightarrow> (Normal, s)
      | Some container \<Rightarrow>
          evaluate (get perCore ''length'')
            (\<lambda>len.
               if \<not> truthy len then skip
               else
                 and_then
                   (if \<not> strict_equal (Num (Fin (of_nat (child_count container)))) len
                    then (case perCore of
                            Arr xs \<Rightarrow> effect (rebuild_core_bars (length xs))
                          | _ \<Rightarrow> evaluate (None :: unit option) (\<lambda>u. skip))
                    else skip)
                   (case perCore of
                      Arr xs \<Rightarrow> effect (fold set_core_bar (zip [0..<length xs] xs))
                    | _ \<Rightarrow> evaluate (None :: unit option) (\<lambda>u. skip)))
            s)"

subsection \<open>The list panels\<close>

definition fan_entry :: "jsval \<Rightarrow> fan_item option" where
  "fan_entry fan =
     do {
       p \<leftarrow> get fan ''percent'';
       r \<leftarrow> get fan ''rpm'';
       n \<leftarrow> get fan ''name'';
       let percent = (if p \<noteq> Null then p else Null);
       let rpm = (if r \<noteq> Null then r else Null);
       let speedDisplay =
         (if percent \<noteq> Null then
            (''fan-percent'', to_string percent @ ''%'') #
            (if rpm \<noteq> Null then [(''fan-rpm'', to_string rpm @ '' RPM'')] else [])
          else if rpm \<noteq> Null then [(''fan-percent'', to_string rpm @ '' RPM'')]
          else [(''fan-percent'', ''--'')]);
       let barWidth = (if percent \<noteq> Null then percent else Num (Fin 0));
       Some \<lparr>fan_name = to_string n, fan_bar_width = to_string barWidth,
             fan_speed = speedDisplay\<rparr>
     }"

definition updateFansList :: "jsval \<Rightarrow> stmt" where
  "updateFansList fanData s =
     (case document s ''fans-list'' of
        None \<Rightarrow> (Normal, s)
      | Some container \<Rightarrow>
          evaluate (do { f \<leftarrow> get fanData ''fans''; Some (or_else f (Arr [])) })
            (\<lambda>fans.
               evaluate (get fans ''length'')
                 (\<lambda>len.
                    if strict_equal len (Num (Fin 0)) then effect (set_innerHTML ''fans-list'' NoFans 1)
                    else
                      (case fans of
                         Arr xs \<Rightarrow>
                           evaluate (those (map fan_entry xs))
                             (\<lambda>items. effect (set_innerHTML ''fans-list'' (Fans items) (length items)))
                       | _ \<Rightarrow> evaluate (None :: unit option) (\<lambda>u. skip))))
            s)"

text \<open>\<^verbatim>\<open>p => p.name !== 'System Idle Process'\<close>\<close>

definition keep_process :: "jsval \<Rightarrow> bool option" where
  "keep_process p = do { n \<leftarrow> get p ''name''; Some (n \<noteq> Str ''System Idle Process'') }"

text \<open>
  \<^verbatim>\<open>processes.filter(...).slice(0, 8)\<close>: the predicate runs on every entry (and throws
  on a \<^verbatim>\<open>null\<close> entry), then the first 8 kept entries are taken.
\<close>

definition filter_processes :: "jsval list \<Rightarrow> jsval list option" where
  "filter_processes ps =
     do {
       keep \<leftarrow> those (map keep_process ps);
       Some (take 8 (map fst (filter snd (zip ps keep))))
     }"

definition memory_string :: "jsnum \<Rightarrow> string" where
  "memory_string memoryMB =
     (if num_ge memoryMB 1024 then num_toFixed (num_div memoryMB 1024) 1 @ '' GB''
      else num_toFixed memoryMB 0 @ '' MB'')"

definition process_entry :: "jsval \<Rightarrow> jsval \<Rightarrow> process_item option" where
  "process_entry totalGB p =
     do {
       mp \<leftarrow> get p ''memory_percent'';
       let memoryMB = num_mul (num_mul (num_div (to_number mp) 100) (to_number totalGB)) (Fin 1024);
       let memoryStr = memory_string memoryMB;
       cp \<leftarrow> get p ''cpu_percent'';
       c \<leftarrow> toFixed cp 1;
       let cpuStr = c @ ''%'';
       n \<leftarrow> get p ''name'';
       Some \<lparr>process_name = to_string n, process_cpu = cpuStr, process_mem = memoryStr\<rparr>
     }"

definition updateProcessList :: "jsval \<Rightarrow> stmt" where
  "updateProcessList processes s =
     (case document s ''process-list'' of
        None \<Rightarrow> (Normal, s)
      | Some container \<Rightarrow>
          (case processes of
             Arr ps \<Rightarrow>
               evaluate
                 (do {
                    filtered \<leftarrow> filter_processes ps;
                    those (map (process_entry (totalMemoryGB s)) filtered)
                  })
                 (\<lambda>items. effect (set_innerHTML ''process-list'' (Processes items) (length items)))
                 s
           | _ \<Rightarrow> (Throw TypeError, s)))"

definition drive_entry :: "jsval \<Rightarrow> drive_item option" where
  "drive_entry drive =
     do {
       size \<leftarrow> get drive ''size_gb'';
       let sizeStr =
         (if num_ge (to_number size) 1000
          then num_toFixed (num_div (to_number size) 1000) 1 @ '' TB''
          else string_of_num (math_round (to_number size)) @ '' GB'');
       m \<leftarrow> get drive ''model'';
       let model0 = or_else m (Str ''Unknown'');
       len \<leftarrow> get model0 ''length'';
       model \<leftarrow>
         (if num_gt (to_number len) 20
          then (case model0 of Str t \<Rightarrow> Some (Str (take 17 t @ ''...'')) | _ \<Rightarrow> None)
          else Some model0);
       ty \<leftarrow> get drive ''type'';
       Some \<lparr>drive_title = to_string m, drive_name = to_string model,
             drive_details = to_string ty, drive_size = sizeStr\<rparr>
     }"

definition update_drives :: "jsval \<Rightarrow> stmt" where
  "update_drives drives s =
     (case document s ''sys-drives'' of
        None \<Rightarrow> (Normal, s)
      | Some container \<Rightarrow>
          (case drives of
             Arr xs \<Rightarrow>
               evaluate (those (map drive_entry xs))
                 (\<lambda>items. effect (set_innerHTML ''sys-drives'' (Drives items) (length items)))
                 s
           | _ \<Rightarrow> (Throw TypeError, s)))"

definition updateSystemInfo :: "jsval \<Rightarrow> stmt" where
  "updateSystemInfo system =
     evaluate (get system ''available'')
       (\<lambda>available.
          if \<not> truthy available then skip
          else
            block
              [evaluate (get system ''uptime'')
                 (\<lambda>uptime. if truthy uptime then effect (setText ''sys-uptime'' uptime) else skip),
               evaluate (get system ''motherboard'')
                 (\<lambda>mb.
                    if truthy mb
                    then set_text ''sys-mb-model''
                           (do { p \<leftarrow> get mb ''product''; Some (or_else p (Str ''--'')) })
                    else skip),
               evaluate (get system ''drives'')
                 (\<lambda>drives.
                    if truthy drives
                    then evaluate (get drives ''length'')
                           (\<lambda>len. if num_gt (to_number len) 0 then update_drives drives else skip)
                    else skip)])"

subsection \<open>The reducer\<close>

definition update_cpu :: "jsval \<Rightarrow> stmt" where
  "update_cpu cpu =
     evaluate (do { u \<leftarrow> get cpu ''usage''; Some (or_else u (Num (Fin 0))) })
       (\<lambda>cpuUsage.
     evaluate (get cpu ''temperature'')
       (\<lambda>cpuTemp.
          block
            [set_text ''cpu-name'' (do { n \<leftarrow> get cpu ''name''; Some (or_else n (Str ''CPU'')) }),
             set_text ''cpu-usage'' (do { t \<leftarrow> toFixed cpuUsage 0; Some (Str (t @ ''%'')) }),
             set_text ''cpu-freq''
               (do {
                  f \<leftarrow> get cpu ''frequency'';
                  Some (if truthy f
                        then Str (num_toFixed (num_div (to_number f) 1000) 1 @ '' GHz'')
                        else Str ''--'')
                }),
             set_text ''cpu-cores'' (do { c \<leftarrow> get cpu ''cores''; Some (or_else c (Str ''--'')) }),
             set_text ''cpu-threads'' (do { c \<leftarrow> get cpu ''threads''; Some (or_else c (Str ''--'')) }),
             set_text ''cpu-temp''
               (if truthy cpuTemp
                then do { t \<leftarrow> toFixed cpuTemp 0; Some (Str (t @ [CHR 0xB0, CHR ''C''])) }
                else Some (Str ''N/A'')),
             evaluate (get cpu ''l2_cache_kb'')
               (\<lambda>l2.
                  if truthy l2
                  then effect (setText ''cpu-l2''
                         (Str (num_toFixed (num_div (to_number l2) 1024) 1 @ '' MB'')))
                  else skip),
             evaluate (get cpu ''l3_cache_kb'')
               (\<lambda>l3.
                  if truthy l3
                  then effect (setText ''cpu-l3''
                         (Str (num_toFixed (num_div (to_number l3) 1024) 0 @ '' MB'')))
                  else skip),
             evaluate (do { pc \<leftarrow> get cpu ''per_core''; Some (or_else pc (Arr [])) }) updateCoreBars,
             updateChart ''cpu-chart'' cpuUsage]))"

definition update_gpu :: "jsval \<Rightarrow> stmt" where
  "update_gpu gpu =
     block
       [set_text ''gpu-name'' (do { n \<leftarrow> get gpu ''name''; Some (or_else n (Str ''GPU'')) }),
        set_text ''gpu-usage''
          (do {
             u \<leftarrow> get gpu ''usage'';
             t \<leftarrow> toFixed (or_else u (Num (Fin 0))) 0;
             Some (Str (t @ ''%''))
           }),
        set_text ''gpu-temp''
          (do {
             t \<leftarrow> get gpu ''temperature'';
             Some (if truthy t then Str (to_string t @ [CHR 0xB0, CHR ''C'']) else Str ''N/A'')
           }),
        set_text ''gpu-vram''
          (do {
             u \<leftarrow> get gpu ''memory_used'';
             uf \<leftarrow> opt_toFixed u 1;
             t \<leftarrow> get gpu ''memory_total'';
             tf \<leftarrow> opt_toFixed t 0;
             Some (Str (to_string (or_else uf (Num (Fin 0))) @ ''/'' @
                        to_string (or_else tf (Num (Fin 0))) @ '' GB''))
           }),
        set_text ''gpu-clock''
          (do {
             c \<leftarrow> get gpu ''graphics_clock'';
             Some (if truthy c then Str (to_string c @ '' MHz'') else Str ''--'')
           }),
        set_text ''gpu-mem-clock''
          (do {
             c \<leftarrow> get gpu ''memory_clock'';
             Some (if truthy c then Str (to_string c @ '' MHz'') else Str ''--'')
           }),
        set_text ''gpu-fan''
          (do {
             f \<leftarrow> get gpu ''fan_speed'';
             Some (if f \<noteq> Null then Str (to_string f @ ''%'') else Str ''--'')
           }),
        set_text ''gpu-power''
          (do {
             p \<leftarrow> get gpu ''power'';
             if truthy p
             then do {
                    pf \<leftarrow> toFixed p 0;
                    l \<leftarrow> get gpu ''power_limit'';
                    lf \<leftarrow> opt_toFixed l 0;
                    Some (Str (pf @ ''/'' @ to_string (or_else lf (Str ''--'')) @ '' W''))
                  }
             else Some (Str ''--'')
           }),
        evaluate (get gpu ''usage'')
          (\<lambda>u. effect (updateMiniGauge ''gpu-usage-gauge'' (or_else u (Num (Fin 0))))),
        evaluate (get gpu ''temperature'')
          (\<lambda>t. effect (updateMiniGauge ''gpu-temp-gauge'' (or_else t (Num (Fin 0))))),
        evaluate (get gpu ''memory_percent'')
          (\<lambda>p. effect (updateProgressBar ''gpu-vram-bar'' (or_else p (Num (Fin 0))))),
        evaluate (get gpu ''usage'')
          (\<lambda>u. updateChart ''gpu-chart'' (or_else u (Num (Fin 0))))]"

definition set_memory_gauge_text :: "jsval \<Rightarrow> stmt" where
  "set_memory_gauge_text memPct s =
     (case document s ''memory-gauge'' of
        None \<Rightarrow> (Normal, s)
      | Some gauge \<Rightarrow>
          (case gauge_text gauge of
             None \<Rightarrow> (Normal, s)
           | Some old \<Rightarrow>
               evaluate (toFixed memPct 0)
                 (\<lambda>t. effect (\<lambda>s. s\<lparr>document := (document s)(''memory-gauge'' \<mapsto>
                                      gauge\<lparr>gauge_text := Some (t @ ''%'')\<rparr>)\<rparr>))
                 s))"

definition update_memory :: "jsval \<Rightarrow> stmt" where
  "update_memory mem =
     evaluate (do { p \<leftarrow> get mem ''percent''; Some (or_else p (Num (Fin 0))) })
       (\<lambda>memPct.
          block
            [evaluate (get mem ''total'')
               (\<lambda>t. effect (\<lambda>s. s\<lparr>totalMemoryGB := or_else t (Num (Fin 0))\<rparr>)),
             set_text ''mem-pct'' (do { t \<leftarrow> toFixed memPct 0; Some (Str (t @ ''%'')) }),
             set_text ''mem-used-total''
               (do {
                  u \<leftarrow> get mem ''used'';
                  uf \<leftarrow> opt_toFixed u 1;
                  t \<leftarrow> get mem ''total'';
                  tf \<leftarrow> opt_toFixed t 0;
                  Some (Str (to_string (or_else uf (Num (Fin 0))) @ '' / '' @
                             to_string (or_else tf (Num (Fin 0))) @ '' GB''))
                }),
             set_text ''mem-speed''
               (do {
                  sp \<leftarrow> get mem ''speed'';
                  Some (if truthy sp then Str (to_string sp @ '' MHz'') else Str ''--'')
                }),
             set_text ''mem-type'' (do { t \<leftarrow> get mem ''type''; Some (or_else t (Str ''--'')) }),
             set_text ''mem-slots''
               (do {
                  used \<leftarrow> get mem ''slots_used'';
                  slots \<leftarrow> get mem ''slots_total'';
                  Some (if used \<noteq> Undefined
                        then Str (to_string used @ ''/'' @
                                  string_of_num (math_min (to_number slots) 4))
                        else Str ''--'')
                }),
             effect (updateMiniGauge ''memory-gauge'' memPct),
             set_memory_gauge_text memPct,
             updateChart ''memory-chart'' memPct])"

definition update_network :: "jsval \<Rightarrow> stmt" where
  "update_network net =
     evaluate (do { d \<leftarrow> get net ''download_rate''; Some (or_else d (Num (Fin 0))) })
       (\<lambda>download.
     evaluate (do { u \<leftarrow> get net ''upload_rate''; Some (or_else u (Num (Fin 0))) })
       (\<lambda>upload.
          block
            [set_text ''net-down'' (do { t \<leftarrow> toFixed download 2; Some (Str (t @ '' MB/s'')) }),
             set_text ''net-up'' (do { t \<leftarrow> toFixed upload 2; Some (Str (t @ '' MB/s'')) }),
             updateDualChart ''network-chart'' download upload]))"

definition update_ping :: "jsval \<Rightarrow> stmt" where
  "update_ping ping =
     evaluate (get ping ''success'')
       (\<lambda>success.
          if truthy success
          then evaluate (get ping ''ping'')
                 (\<lambda>p. if p \<noteq> Null
                       then effect (setText ''ping-value'' (Str (to_string p @ '' ms'')))
                       else effect (setText ''ping-value'' (Str ''--'')))
          else effect (setText ''ping-value'' (Str ''--'')))"

definition update_disk :: "jsval \<Rightarrow> stmt" where
  "update_disk disk =
     evaluate (do { r \<leftarrow> get disk ''read_rate''; Some (or_else r (Num (Fin 0))) })
       (\<lambda>readRate.
     evaluate (do { w \<leftarrow> get disk ''write_rate''; Some (or_else w (Num (Fin 0))) })
       (\<lambda>writeRate.
          block
            [set_text ''disk-read'' (do { t \<leftarrow> toFixed readRate 2; Some (Str (t @ '' MB/s'')) }),
             set_text ''disk-write'' (do { t \<leftarrow> toFixed writeRate 2; Some (Str (t @ '' MB/s'')) }),
             updateDualChart ''disk-chart'' readRate writeRate]))"

text \<open>\<^verbatim>\<open>if (data.k) { body }\<close>\<close>

definition category :: "jsval \<Rightarrow> string \<Rightarrow> (jsval \<Rightarrow> stmt) \<Rightarrow> stmt" where
  "category data k body = evaluate (get data k) (\<lambda>v. if truthy v then body v else skip)"

definition updateDashboard :: "jsval \<Rightarrow> stmt" where
  "updateDashboard data =
     block
       [category data ''cpu'' update_cpu,
        category data ''gpu''
          (\<lambda>gpu. evaluate (get gpu ''available'')
                   (\<lambda>available. if truthy available then update_gpu gpu else skip)),
        category data ''memory'' update_memory,
        category data ''network'' update_network,
        category data ''ping'' update_ping,
        category data ''disk'' update_disk,
        category data ''fans'' updateFansList,
        category data ''processes'' updateProcessList,
        category data ''system'' updateSystemInfo]"

section \<open>The connection\<close>

definition updateConnectionStatus :: "bool \<Rightarrow> monitor \<Rightarrow> monitor" where
  "updateConnectionStatus isConnected s =
     (case document s ''status-dot'' of
        None \<Rightarrow> s
      | Some dot \<Rightarrow>
          (case document s ''status-text'' of
             None \<Rightarrow> s
           | Some txt \<Rightarrow>
               s\<lparr>document := (document s)
                    (''status-dot'' \<mapsto>
                       dot\<lparr>classList :=
                             (if isConnected
                              then (if ''connected'' \<in> set (classList dot) then classList dot
                                    else classList dot @ [''connected''])
                              else removeAll ''connected'' (classList dot))\<rparr>,
                     ''status-text'' \<mapsto>
                       txt\<lparr>textContent := (if isConnected then ''Connected'' else ''Disconnected'')\<rparr>)\<rparr>))"

definition wsUrl :: "monitor \<Rightarrow> string" where
  "wsUrl s =
     (if location_protocol s = ''https:'' then ''wss:'' else ''ws:'') @ ''//'' @
     location_host s @ ''/ws''"

text \<open>
  \<^verbatim>\<open>connect()\<close> constructs a new WebSocket and stores it in \<^verbatim>\<open>this.ws\<close>; it does
  nothing to the socket that was there. The four handlers it installs are the
  functions below; they close over the monitor, not over the socket.
\<close>

definition connect :: "monitor \<Rightarrow> monitor" where
  "connect s = s\<lparr>ws := Some (length (sockets s)), sockets := sockets s @ [(wsUrl s, Connecting)]\<rparr>"

definition onopen :: "monitor \<Rightarrow> monitor" where
  "onopen s = updateConnectionStatus True s"

text \<open>\<^verbatim>\<open>setTimeout(() => this.connect(), 2000)\<close>\<close>

definition onclose :: "monitor \<Rightarrow> monitor" where
  "onclose s =
     (let s1 = updateConnectionStatus False s
      in s1\<lparr>timers := timers s1 @ [clock s1 + 2000]\<rparr>)"

definition onerror :: "monitor \<Rightarrow> monitor" where
  "onerror s = s\<lparr>console := console s @ [''WebSocket error:'']\<rparr>"

text \<open>
  \<^verbatim>\<open>JSON.parse\<close> is the host's decoder and is a parameter: \<open>None\<close> is its SyntaxError.
  The \<^verbatim>\<open>catch\<close> takes that error and every error thrown by \<^verbatim>\<open>updateDashboard\<close>.
\<close>

definition onmessage :: "(string \<Rightarrow> jsval option) \<Rightarrow> string \<Rightarrow> monitor \<Rightarrow> monitor" where
  "onmessage JSON_parse payload s =
     (case JSON_parse payload of
        None \<Rightarrow> s\<lparr>console := console s @ [''Failed to parse message:'']\<rparr>
      | Some data \<Rightarrow>
          (case updateDashboard data s of
             (Normal, s') \<Rightarrow> s'
           | (Throw e, s') \<Rightarrow> s'\<lparr>console := console s' @ [''Failed to parse message:'']\<rparr>))"

definition init :: "monitor \<Rightarrow> monitor" where
  "init s = connect (setupCharts s)"

text \<open>\<^verbatim>\<open>new PCMonitor()\<close> on a page with the given document and location, at time 0.\<close>

definition PCMonitor :: "(string \<rightharpoonup> elem) \<Rightarrow> string \<Rightarrow> string \<Rightarrow> monitor" where
  "PCMonitor page protocol host =
     init \<lparr>ws = None, charts = Map.empty, maxHistoryLength = 60, totalMemoryGB = Num (Fin 0),
           document = page, location_protocol = protocol, location_host = host,
           console = [], sockets = [], timers = [], clock = 0\<rparr>"

subsection \<open>What the browser delivers\<close>

text \<open>
  The events the host can deliver to the handlers: a connecting socket opens; a socket
  that is not closed yet closes (once: it is closed afterwards) or reports an error; an
  open socket receives a message; a timer that is due fires (once: it is pending no
  longer) and runs its callback; time passes. \<open>None\<close>: the host cannot deliver that
  event in that state.
\<close>

datatype event =
    SocketOpen nat
  | SocketClose nat
  | SocketError nat
  | SocketMessage nat string
  | TimerFires nat
  | Elapse nat

definition ready :: "monitor \<Rightarrow> nat \<Rightarrow> ready_state option" where
  "ready s i = (if i < length (sockets s) then Some (snd (sockets s ! i)) else None)"

definition set_ready :: "nat \<Rightarrow> ready_state \<Rightarrow> monitor \<Rightarrow> monitor" where
  "set_ready i r s = s\<lparr>sockets := (sockets s)[i := (fst (sockets s ! i), r)]\<rparr>"

fun deliver :: "(string \<Rightarrow> jsval option) \<Rightarrow> event \<Rightarrow> monitor \<Rightarrow> monitor option" where
  "deliver P (SocketOpen i) s =
     (if ready s i = Some Connecting then Some (onopen (set_ready i Opened s)) else None)"
| "deliver P (SocketClose i) s =
     (if ready s i = Some Connecting \<or> ready s i = Some Opened
      then Some (onclose (set_ready i Closed s)) else None)"
| "deliver P (SocketError i) s =
     (if ready s i = Some Connecting \<or> ready s i = Some Opened
      then Some (onerror s) else None)"
| "deliver P (SocketMessage i payload) s =
     (if ready s i = Some Opened then Some (onmessage P payload s) else None)"
| "deliver P (TimerFires k) s =
     (if k < length (timers s) \<and> timers s ! k \<le> clock s
      then Some (connect (s\<lparr>timers := take k (timers s) @ drop (Suc k) (timers s)\<rparr>))
      else None)"
| "deliver P (Elapse d) s = Some (s\<lparr>clock := clock s + d\<rparr>)"

fun deliver_all :: "(string \<Rightarrow> jsval option) \<Rightarrow> event list \<Rightarrow> monitor \<Rightarrow> monitor option" where
  "deliver_all P [] s = Some s"
| "deliver_all P (e # es) s =
     (case deliver P e s of None \<Rightarrow> None | Some s' \<Rightarrow> deliver_all P es s')"

definition live_sockets :: "monitor \<Rightarrow> nat" where
  "live_sockets s = length (filter (\<lambda>c. snd c \<noteq> Closed) (sockets s))"

section \<open>Statements about the model\<close>

subsection \<open>Sequences of pushes\<close>

text \<open>
  A call of \<^verbatim>\<open>updateChart\<close> or \<^verbatim>\<open>updateDualChart\<close>; a sequence of them is run call
  after call, whatever each completes with (a throwing call leaves what it had already
  changed, and the next message handler runs on that).
\<close>

datatype push = Push string jsval | PushPair string jsval jsval

fun apply_push :: "push \<Rightarrow> monitor \<Rightarrow> monitor" where
  "apply_push (Push c v) s = snd (updateChart c v s)"
| "apply_push (PushPair c a b) s = snd (updateDualChart c a b s)"

text \<open>The values a call pushes into series \<open>k\<close> of chart \<open>c\<close>.\<close>

fun pushed :: "string \<Rightarrow> nat \<Rightarrow> push \<Rightarrow> jsval list" where
  "pushed c k (Push c' v) = (if c' = c \<and> k = 0 then [v] else [])"
| "pushed c k (PushPair c' a b) =
     (if c' = c then (if k = 0 then [a] else if k = 1 then [b] else []) else [])"



subsection \<open>A sample page and a sample decoder\<close>

definition plain :: elem where
  "plain =
     \<lparr>textContent = ''old'', innerHTML = Markup, child_count = 0, classList = [],
      style = Map.empty, fill = None, gauge_text = None\<rparr>"

definition sample_page :: "string \<rightharpoonup> elem" where
  "sample_page =
     [''cpu-chart'' \<mapsto> plain, ''network-chart'' \<mapsto> plain, ''cpu-usage'' \<mapsto> plain,
      ''cpu-freq'' \<mapsto> plain, ''cpu-temp'' \<mapsto> plain, ''cpu-l2'' \<mapsto> plain,
      ''gpu-name'' \<mapsto> plain, ''mem-slots'' \<mapsto> plain, ''fans-list'' \<mapsto> plain,
      ''process-list'' \<mapsto> plain]"

definition sample_monitor :: monitor where
  "sample_monitor = PCMonitor sample_page ''http:'' ''localhost:8000''"

text \<open>A decoder that accepts the empty object only, and the sample monitor once connected.\<close>

definition sample_parse :: "string \<Rightarrow> jsval option" where
  "sample_parse t = (if t = ''{}'' then Some (Obj []) else None)"

definition sample_open :: monitor where
  "sample_open = onopen (set_ready 0 Opened sample_monitor)"

subsection \<open>The process list as the specification words it\<close>

text \<open>
  The specification's selection rule, to be compared with \<open>filter_processes\<close>: remove
  every entry whose name is \<^verbatim>\<open>System Idle Process\<close>, then keep the first 8 in the order
  given.
\<close>

definition spec_process_selection :: "jsval list \<Rightarrow> jsval list" where
  "spec_process_selection ps =
     take 8 (filter (\<lambda>p. get p ''name'' \<noteq> Some (Str ''System Idle Process'')) ps)"

definition sample_process :: "string \<Rightarrow> rat \<Rightarrow> rat \<Rightarrow> jsval" where
  "sample_process n c m =
     Obj [(''name'', Str n), (''cpu_percent'', Num (Fin c)), (''memory_percent'', Num (Fin m))]"

text \<open>The idle process and ten others.\<close>

definition sample_processes :: "jsval list" where
  "sample_processes =
     [sample_process ''p1'' 9 50, sample_process ''System Idle Process'' 90 0,
      sample_process ''p2'' 8 1, sample_process ''p3'' 7 1, sample_process ''p4'' 6 1,
      sample_process ''p5'' 5 1, sample_process ''p6'' 4 1, sample_process ''p7'' 3 1,
      sample_process ''p8'' 2 1, sample_process ''p9'' 1 1, sample_process ''p10'' 0 1]"

text \<open>A field that holds a number, or is absent, or is \<^verbatim>\<open>null\<close>.\<close>

definition number_or_missing :: "jsval \<Rightarrow> bool" where
  "number_or_missing v =
     (case v of Undefined \<Rightarrow> True | Null \<Rightarrow> True | Num x \<Rightarrow> True | _ \<Rightarrow> False)"

subsection \<open>What a statement may change\<close>

text \<open>
  \<open>same_except D C M s s'\<close>: going from \<open>s\<close> to \<open>s'\<close>, only elements with an id in
  \<open>D\<close>, charts with an id in \<open>C\<close> and (when \<open>M\<close> holds) \<^verbatim>\<open>totalMemoryGB\<close> may differ;
  the connection, the timers, the clock and the console are the same.
\<close>

definition same_except :: "string set \<Rightarrow> string set \<Rightarrow> bool \<Rightarrow> monitor \<Rightarrow> monitor \<Rightarrow> bool" where
  "same_except D C M s s' \<longleftrightarrow>
     (\<forall>i. i \<notin> D \<longrightarrow> document s' i = document s i) \<and>
     (\<forall>c. c \<notin> C \<longrightarrow> charts s' c = charts s c) \<and>
     (\<not> M \<longrightarrow> totalMemoryGB s' = totalMemoryGB s) \<and>
     ws s' = ws s \<and> sockets s' = sockets s \<and> timers s' = timers s \<and> clock s' = clock s \<and>
     console s' = console s \<and> location_protocol s' = location_protocol s \<and>
     location_host s' = location_host s \<and> maxHistoryLength s' = maxHistoryLength s"

definition writes :: "string set \<Rightarrow> string set \<Rightarrow> bool \<Rightarrow> stmt \<Rightarrow> bool" where
  "writes D C M f \<longleftrightarrow> (\<forall>s. same_except D C M s (snd (f s)))"

text \<open>
  The view-model slice of a top-level category: the elements, the chart and the field its
  branch of \<^verbatim>\<open>updateDashboard\<close> (with the helpers it calls) assigns to.
\<close>

definition categories :: "string list" where
  "categories =
     [''cpu'', ''gpu'', ''memory'', ''network'', ''ping'', ''disk'', ''fans'', ''processes'',
      ''system'']"

definition slice_ids :: "string \<Rightarrow> string set" where
  "slice_ids k =
     (if k = ''cpu'' then
        {''cpu-name'', ''cpu-usage'', ''cpu-freq'', ''cpu-cores'', ''cpu-threads'', ''cpu-temp'',
         ''cpu-l2'', ''cpu-l3'', ''cpu-core-bars''} \<union> range core_bar_id
      else if k = ''gpu'' then
        {''gpu-name'', ''gpu-usage'', ''gpu-temp'', ''gpu-vram'', ''gpu-clock'', ''gpu-mem-clock'',
         ''gpu-fan'', ''gpu-power'', ''gpu-usage-gauge'', ''gpu-temp-gauge'', ''gpu-vram-bar''}
      else if k = ''memory'' then
        {''mem-pct'', ''mem-used-total'', ''mem-speed'', ''mem-type'', ''mem-slots'',
         ''memory-gauge''}
      else if k = ''network'' then {''net-down'', ''net-up''}
      else if k = ''ping'' then {''ping-value''}
      else if k = ''disk'' then {''disk-read'', ''disk-write''}
      else if k = ''fans'' then {''fans-list''}
      else if k = ''processes'' then {''process-list''}
      else if k = ''system'' then {''sys-uptime'', ''sys-mb-model'', ''sys-drives''}
      else {})"

definition slice_charts :: "string \<Rightarrow> string set" where
  "slice_charts k =
     (if k = ''cpu'' then {''cpu-chart''}
      else if k = ''gpu'' then {''gpu-chart''}
      else if k = ''memory'' then {''memory-chart''}
      else if k = ''network'' then {''network-chart''}
      else if k = ''disk'' then {''disk-chart''}
      else {})"

definition slice_unchanged :: "string \<Rightarrow> monitor \<Rightarrow> monitor \<Rightarrow> bool" where
  "slice_unchanged k s s' \<longleftrightarrow>
     (\<forall>i \<in> slice_ids k. document s' i = document s i) \<and>
     (\<forall>c \<in> slice_charts k. charts s' c = charts s c) \<and>
     (k = ''memory'' \<longrightarrow> totalMemoryGB s' = totalMemoryGB s)"

text \<open>\<^verbatim>\<open>if (data.k)\<close> succeeds.\<close>

definition present :: "jsval \<Rightarrow> string \<Rightarrow> bool" where
  "present data k = (case get data k of None \<Rightarrow> False | Some v \<Rightarrow> truthy v)"

section \<open>Facts about the numbers\<close>

subsection \<open>Rounding to a double is idempotent\<close>

lemma pow2_powi: "pow2 e = 2 powi e"
  by (cases "0 \<le> e") (simp_all add: pow2_def power_int_def inverse_eq_divide power_one_over)

lemma pow2_pos [simp]: "0 < pow2 e"
  by (simp add: pow2_powi)

lemma pow2_nonneg [simp]: "0 \<le> pow2 e"
  by (simp add: pow2_powi)

lemma pow2_ne0 [simp]: "pow2 e \<noteq> 0"
  by (simp add: pow2_powi)

lemma pow2_add: "pow2 (a + b) = pow2 a * pow2 b"
  by (simp add: pow2_powi power_int_add)

lemma pow2_diff: "pow2 a / pow2 b = pow2 (a - b)"
proof -
  have "pow2 a = pow2 (a - b) * pow2 b" using pow2_add[of "a - b" b] by simp
  then show ?thesis by simp
qed

lemma pow2_1: "pow2 1 = 2" by (simp add: pow2_def)

lemma pow2_mono: "a \<le> b \<Longrightarrow> pow2 a \<le> pow2 b"
  by (simp add: pow2_powi power_int_increasing)

lemma pow2_strict_mono: "a < b \<Longrightarrow> pow2 a < pow2 b"
  by (simp add: pow2_powi power_int_strict_increasing)

lemma pow2_nat: "pow2 (int n) = 2 ^ n"
  by (simp add: pow2_def)

lemma bit_length_spec: "0 < n \<Longrightarrow> 2 ^ (bit_length n - 1) \<le> n \<and> n < 2 ^ bit_length n"
proof (induction n rule: bit_length.induct)
  case (1 n)
  show ?case
  proof (cases "n div 2 = 0")
    case True
    with 1(2) have "n = 1" by presburger
    then show ?thesis by (simp add: bit_length.simps)
  next
    case False
    with 1(2) have p: "0 < n div 2" by presburger
    from 1(1)[OF _ p] 1(2) have ih: "2 ^ (bit_length (n div 2) - 1) \<le> n div 2 \<and> n div 2 < 2 ^ bit_length (n div 2)"
      by simp
    have bl: "bit_length n = Suc (bit_length (n div 2))"
      using 1(2) by (subst bit_length.simps) simp
    have pos: "0 < bit_length (n div 2)"
      using p by (subst bit_length.simps) simp
    then obtain k where k: "bit_length (n div 2) = Suc k" by (cases "bit_length (n div 2)") auto
    from ih show ?thesis unfolding bl k by simp presburger
  qed
qed

lemma round_half_even_int [simp]: "round_half_even (of_int m) = m"
  by (simp add: round_half_even_def)

lemma round_half_even_floor:
  "round_half_even x = \<lfloor>x\<rfloor> \<or> round_half_even x = \<lfloor>x\<rfloor> + 1"
  by (simp add: round_half_even_def Let_def)

lemma round_half_even_ge:
  assumes "of_int A \<le> x"
  shows "A \<le> round_half_even x"
proof -
  from assms have "A \<le> \<lfloor>x\<rfloor>" by (simp add: le_floor_iff)
  then show ?thesis using round_half_even_floor[of x] by auto
qed

lemma round_half_even_le:
  assumes "x \<le> of_int B"
  shows "round_half_even x \<le> B"
proof (cases "x = of_int B")
  case True
  then show ?thesis by simp
next
  case False
  with assms have "x < of_int B" by simp
  then have "\<lfloor>x\<rfloor> < B" by (simp add: floor_less_iff)
  then show ?thesis using round_half_even_floor[of x] by auto
qed

lemma quotient_of_pos:
  assumes "0 < a" and "quotient_of a = (p, q)"
  shows "0 < p \<and> 0 < q \<and> a = of_int p / of_int q"
  using assms quotient_of_denom_pos[OF assms(2)] quotient_of_div[OF assms(2)]
  by (simp add: zero_less_divide_iff)

lemma binary_exponent_spec:
  assumes "0 < a"
  shows "pow2 (binary_exponent a) \<le> a \<and> a < pow2 (binary_exponent a + 1)"
proof -
  obtain p q where pq: "quotient_of a = (p, q)" by (cases "quotient_of a")
  from quotient_of_pos[OF assms pq] have p: "0 < p" and q: "0 < q" and a: "a = of_int p / of_int q"
    by simp_all
  define bp where "bp = bit_length p"
  define bq where "bq = bit_length q"
  from bit_length_spec[OF p] have p1: "2 ^ (bp - 1) \<le> p" and p2: "p < 2 ^ bp" by (simp_all add: bp_def)
  from bit_length_spec[OF q] have q1: "2 ^ (bq - 1) \<le> q" and q2: "q < 2 ^ bq" by (simp_all add: bq_def)
  have bp0: "0 < bp" using p by (simp add: bp_def bit_length.simps[of p])
  have bq0: "0 < bq" using q by (simp add: bq_def bit_length.simps[of q])
  let ?e0 = "int bp - int bq"
  have rp1: "(2::rat) ^ (bp - 1) \<le> of_int p" using p1 by (metis of_int_le_iff of_int_numeral of_int_power)
  have rp2: "of_int p < (2::rat) ^ bp" using p2 by (metis of_int_less_iff of_int_numeral of_int_power)
  have rq1: "(2::rat) ^ (bq - 1) \<le> of_int q" using q1 by (metis of_int_le_iff of_int_numeral of_int_power)
  have rq2: "of_int q < (2::rat) ^ bq" using q2 by (metis of_int_less_iff of_int_numeral of_int_power)
  have qpos: "(0::rat) < of_int q" using q by simp
  have up: "a < pow2 (?e0 + 1)"
  proof -
    have "a < 2 ^ bp / of_int q" unfolding a using rp2 qpos by (simp add: divide_strict_right_mono)
    also have "\<dots> \<le> 2 ^ bp / 2 ^ (bq - 1)" using rq1 by (simp add: frac_le)
    also have "\<dots> = pow2 (int bp) * pow2 (- int (bq - 1))"
      by (simp add: pow2_powi power_int_minus divide_inverse)
    also have "\<dots> = pow2 (int bp + - int (bq - 1))" by (simp only: pow2_add)
    also have "int bp + - int (bq - 1) = ?e0 + 1" using bq0 by linarith
    finally show ?thesis .
  qed
  have lo: "pow2 (?e0 - 1) < a"
  proof -
    have "?e0 - 1 = int (bp - 1) + - int bq" using bp0 by linarith
    then have "pow2 (?e0 - 1) = pow2 (int (bp - 1)) * pow2 (- int bq)"
      by (simp only: pow2_add)
    also have "\<dots> = 2 ^ (bp - 1) / 2 ^ bq"
      by (simp add: pow2_powi power_int_minus divide_inverse)
    also have "\<dots> < 2 ^ (bp - 1) / of_int q" using rq2 qpos by (simp add: divide_strict_left_mono)
    also have "\<dots> \<le> a" unfolding a using rp1 qpos by (simp add: divide_right_mono)
    finally show ?thesis .
  qed
  have be: "binary_exponent a = (if pow2 ?e0 \<le> a then ?e0 else ?e0 - 1)"
    by (simp add: binary_exponent_def pq bp_def bq_def Let_def)
  show ?thesis
  proof (cases "pow2 ?e0 \<le> a")
    case True
    then show ?thesis using up be by simp
  next
    case False
    then show ?thesis using lo be by simp
  qed
qed

lemma binary_exponent_unique:
  assumes "pow2 e \<le> a" and "a < pow2 (e + 1)"
  shows "binary_exponent a = e"
proof -
  have pos: "0 < a" by (rule less_le_trans[OF pow2_pos assms(1)])
  from binary_exponent_spec[OF pos] have s: "pow2 (binary_exponent a) \<le> a" "a < pow2 (binary_exponent a + 1)"
    by simp_all
  have "\<not> binary_exponent a < e"
  proof
    assume "binary_exponent a < e"
    then have "pow2 (binary_exponent a + 1) \<le> pow2 e" by (intro pow2_mono) simp
    with s(2) assms(1) show False by simp
  qed
  moreover have "\<not> e < binary_exponent a"
  proof
    assume "e < binary_exponent a"
    then have "pow2 (e + 1) \<le> pow2 (binary_exponent a)" by (intro pow2_mono) simp
    with s(1) assms(2) show False by simp
  qed
  ultimately show ?thesis by simp
qed


lemma pow2_52: "pow2 52 = 4503599627370496" by (simp add: pow2_def)
lemma pow2_53: "pow2 53 = 9007199254740992" by (simp add: pow2_def)

lemma to_double_pos:
  assumes "0 < r"
  shows "to_double r =
     (let e = binary_exponent r;
          u = (if e < - 1022 then - 1074 else e - 52);
          m = round_half_even (r / pow2 u)
      in if 1024 \<le> e \<or> (e = 1023 \<and> m = 9007199254740992) then PosInf
         else Fin (of_int m * pow2 u))"
  using assms by (auto simp: to_double_def Let_def)

lemma to_double_minus:
  assumes "r \<noteq> 0"
  shows "to_double (- r) =
     (case to_double r of Fin d \<Rightarrow> Fin (- d) | NaN \<Rightarrow> NaN | PosInf \<Rightarrow> NegInf | NegInf \<Rightarrow> PosInf)"
  using assms by (cases "r < 0") (auto simp: to_double_def Let_def)

lemma to_double_canonical:
  assumes m0: "0 < m" and m53: "m \<le> 9007199254740992" and u0: "- 1074 \<le> u"
    and sub: "m < 4503599627370496 \<longrightarrow> u = - 1074"
    and u1: "u \<le> 971" and top: "u = 971 \<longrightarrow> m < 9007199254740992"
  shows "to_double (of_int m * pow2 u) = Fin (of_int m * pow2 u)"
proof -
  let ?a = "of_int m * pow2 u :: rat"
  have pos: "0 < ?a" using m0 by simp
  consider (small) "m < 4503599627370496"
    | (normal) "4503599627370496 \<le> m" "m < 9007199254740992"
    | (full) "m = 9007199254740992"
    using m53 by linarith
  then show ?thesis
  proof cases
    case small
    with sub have u: "u = - 1074" by simp
    define b where "b = bit_length m"
    from bit_length_spec[OF m0] have b1: "2 ^ (b - 1) \<le> m" and b2: "m < 2 ^ b" by (simp_all add: b_def)
    have b0: "0 < b" using m0 by (simp add: b_def bit_length.simps[of m])
    have "(2::int) ^ (b - 1) < 2 ^ 52" using b1 small by simp
    then have b52: "b - 1 < 52" by (simp only: power_strict_increasing_iff) 
    let ?e = "int (b - 1) + u"
    have rb1: "(2::rat) ^ (b - 1) \<le> of_int m" using b1 by (metis of_int_le_iff of_int_numeral of_int_power)
    have rb2: "of_int m < (2::rat) ^ b" using b2 by (metis of_int_less_iff of_int_numeral of_int_power)
    have l: "pow2 ?e \<le> ?a"
      using rb1 by (simp add: pow2_add pow2_nat)
    have "?a < 2 ^ b * pow2 u" using rb2 by simp
    also have "\<dots> = pow2 (int b + u)" by (simp add: pow2_add pow2_nat)
    also have "int b + u = ?e + 1" using b0 by linarith
    finally have h: "?a < pow2 (?e + 1)" .
    have e: "binary_exponent ?a = ?e" by (rule binary_exponent_unique[OF l h])
    have lt: "?e < - 1022" using b52 u by linarith
    show ?thesis
      unfolding to_double_pos[OF pos] e using lt u by (simp add: Let_def)
  next
    case normal
    let ?e = "52 + u"
    have "pow2 ?e = 4503599627370496 * pow2 u" by (simp add: pow2_add pow2_52)
    also have "\<dots> \<le> ?a" using normal(1) by simp
    finally have l: "pow2 ?e \<le> ?a" .
    have "?a < 9007199254740992 * pow2 u" using normal(2) by simp
    also have "\<dots> = pow2 (53 + u)" by (simp add: pow2_add pow2_53)
    also have "53 + u = ?e + 1" by simp
    finally have h: "?a < pow2 (?e + 1)" .
    have e: "binary_exponent ?a = ?e" by (rule binary_exponent_unique[OF l h])
    show ?thesis
      unfolding to_double_pos[OF pos] e using u0 u1 normal by (simp add: Let_def)
  next
    case full
    let ?e = "53 + u"
    have a: "?a = pow2 ?e" using full by (simp add: pow2_add pow2_53)
    have l: "pow2 ?e \<le> ?a" using a by simp
    have h: "?a < pow2 (?e + 1)" unfolding a by (rule pow2_strict_mono) simp
    have e: "binary_exponent ?a = ?e" by (rule binary_exponent_unique[OF l h])
    have u971: "u < 971" using u1 top full by (cases "u = 971") simp_all
    have q: "?a / pow2 (1 + u) = of_int 4503599627370496"
      unfolding a by (simp add: pow2_add pow2_53 pow2_1)
    have v: "of_int 4503599627370496 * pow2 (1 + u) = ?a"
      unfolding a by (simp add: pow2_add pow2_53 pow2_1)
    have "to_double ?a = Fin (of_int 4503599627370496 * pow2 (1 + u))"
      unfolding to_double_pos[OF pos] e using u0 u971
      by (simp add: Let_def q del: of_int_numeral) 
    then show ?thesis unfolding v .
  qed
qed

lemma to_double_shape:
  assumes r: "0 < r" and d: "to_double r = Fin d"
  shows "d = 0 \<or>
         (\<exists>m u. d = of_int m * pow2 u \<and> 0 < m \<and> m \<le> 9007199254740992 \<and> - 1074 \<le> u \<and>
                (m < 4503599627370496 \<longrightarrow> u = - 1074) \<and> u \<le> 971 \<and>
                (u = 971 \<longrightarrow> m < 9007199254740992))"
proof -
  define e where "e = binary_exponent r"
  define u where "u = (if e < - 1022 then - 1074 else e - 52)"
  define m where "m = round_half_even (r / pow2 u)"
  from binary_exponent_spec[OF r] have lo: "pow2 e \<le> r" and hi: "r < pow2 (e + 1)"
    by (simp_all add: e_def)
  from d have no: "\<not> (1024 \<le> e \<or> (e = 1023 \<and> m = 9007199254740992))"
    and dv: "d = of_int m * pow2 u"
    unfolding to_double_pos[OF r] e_def[symmetric] Let_def u_def[symmetric] m_def[symmetric]
    by (auto split: if_splits)
  have "of_int 0 \<le> r / pow2 u" using r by simp
  then have m0: "0 \<le> m" unfolding m_def by (rule round_half_even_ge)
  show ?thesis
  proof (cases "m = 0")
    case True
    then show ?thesis using dv by simp
  next
    case False
    with m0 have mp: "0 < m" by simp
    show ?thesis
    proof (cases "e < - 1022")
      case True
      then have u: "u = - 1074" by (simp add: u_def)
      have "r / pow2 u < pow2 (e + 1) / pow2 u" using hi by (simp add: divide_strict_right_mono)
      also have "\<dots> = pow2 (e + 1 + 1074)" unfolding u by (simp add: pow2_diff)
      also have "\<dots> \<le> pow2 52" using True by (intro pow2_mono) simp
      finally have "r / pow2 u \<le> of_int 4503599627370496" by (simp add: pow2_52)
      then have "m \<le> 4503599627370496" unfolding m_def by (rule round_half_even_le)
      then show ?thesis using dv mp u by (intro disjI2 exI[of _ m] exI[of _ u]) simp
    next
      case False
      then have u: "u = e - 52" by (simp add: u_def)
      have eu: "e = u + 52" using u by simp
      have "r / pow2 u < pow2 (e + 1) / pow2 u" using hi by (simp add: divide_strict_right_mono)
      also have "\<dots> = pow2 53" unfolding eu by (simp add: pow2_diff)
      finally have "r / pow2 u \<le> of_int 9007199254740992" by (simp add: pow2_53)
      then have m53: "m \<le> 9007199254740992" unfolding m_def by (rule round_half_even_le)
      have "pow2 52 = pow2 e / pow2 u" unfolding eu by (simp add: pow2_diff)
      also have "\<dots> \<le> r / pow2 u" using lo by (simp add: divide_right_mono)
      finally have "of_int 4503599627370496 \<le> r / pow2 u" by (simp add: pow2_52)
      then have m52: "4503599627370496 \<le> m" unfolding m_def by (rule round_half_even_ge)
      have "- 1074 \<le> u \<and> u \<le> 971 \<and> (u = 971 \<longrightarrow> m < 9007199254740992)"
        using False no u m53 by auto
      then show ?thesis using dv mp m53 m52 by (intro disjI2 exI[of _ m] exI[of _ u]) simp
    qed
  qed
qed

lemma to_double_idem:
  assumes "to_double r = Fin d"
  shows "to_double d = Fin d"
proof -
  have P: "to_double d' = Fin d'" if "0 < r'" "to_double r' = Fin d'" for r' d'
  proof -
    from to_double_shape[OF that] show ?thesis
    proof
      assume "d' = 0" 
      then show ?thesis by (simp add: to_double_def)
    next
      assume "\<exists>m u. d' = of_int m * pow2 u \<and> 0 < m \<and> m \<le> 9007199254740992 \<and> - 1074 \<le> u \<and>
                (m < 4503599627370496 \<longrightarrow> u = - 1074) \<and> u \<le> 971 \<and>
                (u = 971 \<longrightarrow> m < 9007199254740992)"
      then obtain m u where "d' = of_int m * pow2 u" "0 < m" "m \<le> 9007199254740992" "- 1074 \<le> u"
                "m < 4503599627370496 \<longrightarrow> u = - 1074" "u \<le> 971"
                "u = 971 \<longrightarrow> m < 9007199254740992" by blast
      then show ?thesis using to_double_canonical[of m u] by simp
    qed
  qed
  consider "r = 0" | "0 < r" | "r < 0" by linarith
  then show ?thesis
  proof cases
    case 1
    with assms show ?thesis by (simp add: to_double_def)
  next
    case 2
    from P[OF 2 assms] show ?thesis .
  next
    case 3
    then have n: "0 < - r" and nz: "r \<noteq> 0" by simp_all
    from to_double_minus[OF nz] assms have "to_double (- r) = Fin (- d)" by simp
    from P[OF n this] have md: "to_double (- d) = Fin (- d)" .
    show ?thesis
    proof (cases "d = 0")
      case True
      then show ?thesis by (simp add: to_double_def)
    next
      case False
      then have "- d \<noteq> 0" by simp
      from to_double_minus[OF this] md show ?thesis by simp
    qed
  qed
qed

lemma as_double_to_double [simp]: "as_double (to_double r) = to_double r"
  by (cases "to_double r") (simp_all add: to_double_idem)

lemma as_double_idem [simp]: "as_double (as_double x) = as_double x"
  by (cases x) simp_all

lemma as_double_num_div [simp]: "as_double (num_div x c) = num_div x c"
  by (cases "as_double x") (simp_all add: num_div_def)

lemma as_double_num_mul [simp]: "as_double (num_mul x y) = num_mul x y"
  by (cases "as_double x"; cases "as_double y") (simp_all add: num_mul_def Let_def num_sign_def)

subsection \<open>Operations at particular arguments\<close>

lemma to_double_0 [simp]: "to_double 0 = Fin 0"
  by (simp add: to_double_def)

lemma to_double_42: "to_double 42 = Fin 42"
  by code_simp

lemma num_div_NaN [simp]: "num_div NaN c = NaN"
  by (simp add: num_div_def)

lemma num_mul_NaN [simp]: "num_mul NaN y = NaN"
  by (simp add: num_mul_def)

lemma num_ge_NaN [simp]: "\<not> num_ge NaN c"
  by (simp add: num_ge_def)

lemma num_toFixed_NaN [simp]: "num_toFixed NaN d = ''NaN''"
  by (simp add: num_toFixed_def)

subsection \<open>The sliding windows\<close>


lemma charts_setup_cases:
  "charts (PCMonitor page proto host) cid = Some c \<Longrightarrow>
     (cid \<in> {''cpu-chart'', ''gpu-chart'', ''memory-chart''} \<and> datasets c = [replicate 60 Null] \<and> rendered c = datasets c) \<or>
     (cid \<in> {''network-chart'', ''disk-chart''} \<and> datasets c = [replicate 60 Null, replicate 60 Null] \<and> rendered c = datasets c)"
  by (auto simp: PCMonitor_def init_def connect_def setupCharts_def createChart_def createDualChart_def
      split: option.splits if_splits)

lemma apply_push_chart:
  "charts (apply_push p s) cid = Some c' \<Longrightarrow>
   \<exists>c. charts s cid = Some c \<and> length (datasets c') = length (datasets c) \<and>
       (\<forall>k < length (datasets c). datasets c' ! k =
           (case pushed cid k p of [] \<Rightarrow> datasets c ! k | v # vs \<Rightarrow> push_shift (datasets c ! k) v))"
  apply (cases p)
   apply (auto simp: updateChart_def updateDualChart_def nth_Cons' split: option.splits list.splits if_splits)
  done

lemma pushed_cases: "pushed c k p = [] \<or> (\<exists>v. pushed c k p = [v])"
  by (cases p) auto

lemma push_shift_window:
  assumes "d0 \<noteq> []"
  shows "push_shift (drop (length vs) (d0 @ vs)) v = drop (Suc (length vs)) (d0 @ vs @ [v])"
proof -
  have "drop (length vs) ((d0 @ vs) @ [v]) = drop (length vs) (d0 @ vs) @ [v]" by simp
  then have "push_shift (drop (length vs) (d0 @ vs)) v = tl (drop (length vs) ((d0 @ vs) @ [v]))"
    by (simp only: push_shift_def)
  also have "\<dots> = drop (Suc (length vs)) ((d0 @ vs) @ [v])"
    by (simp only: tl_drop drop_Suc)
  finally show ?thesis by simp
qed

lemma window_content:
  "charts (fold apply_push ps s0) cid = Some c \<Longrightarrow>
   \<exists>c0. charts s0 cid = Some c0 \<and> length (datasets c) = length (datasets c0) \<and>
     (\<forall>k<length (datasets c0). datasets c0 ! k \<noteq> [] \<longrightarrow>
        datasets c ! k =
          drop (length (concat (map (pushed cid k) ps))) (datasets c0 ! k @ concat (map (pushed cid k) ps)))"
proof (induction ps arbitrary: c rule: rev_induct)
  case Nil
  then show ?case by simp
next
  case (snoc p ps)
  from snoc.prems have "charts (apply_push p (fold apply_push ps s0)) cid = Some c" by simp
  from apply_push_chart[OF this] obtain c1 where
    c1: "charts (fold apply_push ps s0) cid = Some c1"
    and len: "length (datasets c) = length (datasets c1)"
    and step: "\<forall>k < length (datasets c1). datasets c ! k =
           (case pushed cid k p of [] \<Rightarrow> datasets c1 ! k | v # vs \<Rightarrow> push_shift (datasets c1 ! k) v)"
    by blast
  from snoc.IH[OF c1] obtain c0 where
    c0: "charts s0 cid = Some c0" and len0: "length (datasets c1) = length (datasets c0)"
    and ih: "\<forall>k<length (datasets c0). datasets c0 ! k \<noteq> [] \<longrightarrow>
        datasets c1 ! k =
          drop (length (concat (map (pushed cid k) ps))) (datasets c0 ! k @ concat (map (pushed cid k) ps))"
    by blast
  have "datasets c ! k =
          drop (length (concat (map (pushed cid k) (ps @ [p]))))
            (datasets c0 ! k @ concat (map (pushed cid k) (ps @ [p])))"
    if k: "k < length (datasets c0)" and ne: "datasets c0 ! k \<noteq> []" for k
  proof -
    let ?vs = "concat (map (pushed cid k) ps)"
    have d1: "datasets c1 ! k = drop (length ?vs) (datasets c0 ! k @ ?vs)" using ih k ne by blast
    consider "pushed cid k p = []" | v where "pushed cid k p = [v]" using pushed_cases by blast
    then show ?thesis
    proof cases
      case 1
      then show ?thesis using step k len0 d1 by simp
    next
      case 2
      then have "datasets c ! k = push_shift (datasets c1 ! k) v" using step k len0 by simp
      then show ?thesis using d1 2 push_shift_window[OF ne] by simp
    qed
  qed
  then show ?case using c0 len len0 by simp
qed






text \<open>
  C2. Every series of every chart the monitor owns has length 60 after any sequence of
  pushes: it is the last 60 entries of the 60 initial \<^verbatim>\<open>null\<close>s followed by the
  values pushed into it, so each push appends at the tail and evicts the head.
\<close>

theorem sliding_window_length:
  assumes "charts (fold apply_push ps (PCMonitor page proto host)) cid = Some c"
    and "k < length (datasets c)"
  shows "length (datasets c ! k) = 60 \<and>
         datasets c ! k =
           drop (length (concat (map (pushed cid k) ps)))
             (replicate 60 Null @ concat (map (pushed cid k) ps))"
proof -
  from window_content[OF assms(1)] obtain c0 where
    c0: "charts (PCMonitor page proto host) cid = Some c0"
    and len: "length (datasets c) = length (datasets c0)"
    and w: "\<forall>k<length (datasets c0). datasets c0 ! k \<noteq> [] \<longrightarrow>
        datasets c ! k =
          drop (length (concat (map (pushed cid k) ps))) (datasets c0 ! k @ concat (map (pushed cid k) ps))"
    by blast
  from charts_setup_cases[OF c0] assms(2) len have "datasets c0 ! k = replicate 60 Null"
    by (auto simp: nth_Cons')
  then show ?thesis using w assms(2) len by simp
qed

theorem sliding_window_length_witness:
  "map_option (\<lambda>c. (length (datasets c ! 0), datasets c ! 0 ! 59, datasets c ! 0 ! 58))
     (charts (fold apply_push [Push ''cpu-chart'' (Num (Fin 42)), Push ''cpu-chart'' (Num (Fin 7))]
        sample_monitor) ''cpu-chart'')
   = Some (60, Num (Fin 7), Num (Fin 42))"
proof -
  let ?ps = "[Push ''cpu-chart'' (Num (Fin 42)), Push ''cpu-chart'' (Num (Fin 7))]"
  obtain c where c: "charts (fold apply_push ?ps sample_monitor) ''cpu-chart'' = Some c"
    by (simp add: sample_monitor_def sample_page_def PCMonitor_def init_def connect_def
        setupCharts_def createChart_def createDualChart_def updateChart_def)
  from window_content[OF c] have k: "0 < length (datasets c)"
    by (auto simp: sample_monitor_def sample_page_def PCMonitor_def init_def connect_def
        setupCharts_def createChart_def createDualChart_def)
  from sliding_window_length[OF c[unfolded sample_monitor_def] k] show ?thesis
    using c by (simp add: nth_append)
qed



subsection \<open>Frame lemmas\<close>


named_theorems writes_intros

lemma same_except_refl [simp]: "same_except D C M s s"
  by (simp add: same_except_def)

lemma same_except_trans:
  "same_except D C M s s1 \<Longrightarrow> same_except D C M s1 s2 \<Longrightarrow> same_except D C M s s2"
  by (simp add: same_except_def)

lemma same_except_mono:
  "same_except D C M s s' \<Longrightarrow> D \<subseteq> D' \<Longrightarrow> C \<subseteq> C' \<Longrightarrow> (M \<longrightarrow> M') \<Longrightarrow> same_except D' C' M' s s'"
  unfolding same_except_def by (intro conjI; blast)

lemma writes_mono:
  "writes D C M f \<Longrightarrow> D \<subseteq> D' \<Longrightarrow> C \<subseteq> C' \<Longrightarrow> (M \<longrightarrow> M') \<Longrightarrow> writes D' C' M' f"
  unfolding writes_def using same_except_mono by blast

lemma writes_skip [writes_intros]: "writes D C M skip"
  by (simp add: writes_def skip_def)

lemma writes_effect:
  "(\<And>s. same_except D C M s (f s)) \<Longrightarrow> writes D C M (effect f)"
  by (simp add: writes_def effect_def)

lemma writes_and_then [writes_intros]:
  assumes "writes D C M f" "writes D C M g"
  shows "writes D C M (and_then f g)"
  unfolding writes_def
proof
  fix s
  obtain r s1 where f: "f s = (r, s1)" by (cases "f s")
  have 1: "same_except D C M s s1" using assms(1) f by (auto simp: writes_def dest: spec[of _ s])
  show "same_except D C M s (snd (and_then f g s))"
  proof (cases r)
    case Normal
    have "same_except D C M s1 (snd (g s1))" using assms(2) by (simp add: writes_def)
    then show ?thesis using 1 f Normal by (auto simp: and_then_def intro: same_except_trans)
  next
    case (Throw e)
    then show ?thesis using 1 f by (simp add: and_then_def)
  qed
qed

lemma writes_evaluate [writes_intros]:
  "(\<And>v. writes D C M (k v)) \<Longrightarrow> writes D C M (evaluate e k)"
  by (cases e) (auto simp: writes_def evaluate_def)

lemma writes_block_Nil [writes_intros]: "writes D C M (block [])"
  by (simp add: block_def writes_skip)

lemma writes_block_Cons [writes_intros]:
  "writes D C M f \<Longrightarrow> writes D C M (block fs) \<Longrightarrow> writes D C M (block (f # fs))"
  by (simp add: block_def writes_and_then)

lemma writes_if [writes_intros]:
  "(b \<Longrightarrow> writes D C M f) \<Longrightarrow> (\<not> b \<Longrightarrow> writes D C M g) \<Longrightarrow> writes D C M (if b then f else g)"
  by simp

lemma same_except_setText: "i \<in> D \<Longrightarrow> same_except D C M s (setText i v s)"
  by (auto simp: same_except_def setText_def split: option.splits)

lemma same_except_updateMiniGauge: "i \<in> D \<Longrightarrow> same_except D C M s (updateMiniGauge i v s)"
  by (auto simp: same_except_def updateMiniGauge_def Let_def split: option.splits)

lemma same_except_updateProgressBar: "i \<in> D \<Longrightarrow> same_except D C M s (updateProgressBar i v s)"
  by (auto simp: same_except_def updateProgressBar_def split: option.splits)

lemma same_except_set_innerHTML: "i \<in> D \<Longrightarrow> same_except D C M s (set_innerHTML i h n s)"
  by (auto simp: same_except_def set_innerHTML_def split: option.splits)

lemma writes_setText [writes_intros]: "i \<in> D \<Longrightarrow> writes D C M (effect (setText i v))"
  by (simp add: writes_effect same_except_setText)

lemma writes_set_text [writes_intros]: "i \<in> D \<Longrightarrow> writes D C M (set_text i e)"
  by (simp add: set_text_def writes_evaluate writes_setText)

lemma writes_updateMiniGauge [writes_intros]: "i \<in> D \<Longrightarrow> writes D C M (effect (updateMiniGauge i v))"
  by (simp add: writes_effect same_except_updateMiniGauge)

lemma writes_updateProgressBar [writes_intros]: "i \<in> D \<Longrightarrow> writes D C M (effect (updateProgressBar i v))"
  by (simp add: writes_effect same_except_updateProgressBar)

lemma writes_set_innerHTML [writes_intros]: "i \<in> D \<Longrightarrow> writes D C M (effect (set_innerHTML i h n))"
  by (simp add: writes_effect same_except_set_innerHTML)

lemma writes_updateChart [writes_intros]: "c \<in> C \<Longrightarrow> writes D C M (updateChart c v)"
  by (auto simp: writes_def same_except_def updateChart_def split: option.splits list.splits)

lemma writes_updateDualChart [writes_intros]: "c \<in> C \<Longrightarrow> writes D C M (updateDualChart c a b)"
  by (auto simp: writes_def same_except_def updateDualChart_def split: option.splits list.splits)

lemma fold_upd_other:
  "j \<notin> f ` set xs \<Longrightarrow> fold (\<lambda>i d. d(f i := g i)) xs d j = d j"
  by (induction xs arbitrary: d) auto

lemma same_except_rebuild_core_bars:
  "''cpu-core-bars'' \<in> D \<Longrightarrow> range core_bar_id \<subseteq> D \<Longrightarrow> same_except D C M s (rebuild_core_bars n s)"
proof -
  assume a: "''cpu-core-bars'' \<in> D" "range core_bar_id \<subseteq> D"
  have "fold (\<lambda>i d. d(core_bar_id i \<mapsto> new_core_bar)) xs
          (fold (\<lambda>i d. d(core_bar_id i := None)) ys d) j = d j"
    if "j \<notin> D" for j xs ys and d :: "string \<rightharpoonup> elem"
  proof -
    have j: "j \<notin> range core_bar_id" using that a by blast
    then have "j \<notin> core_bar_id ` set xs" "j \<notin> core_bar_id ` set ys" by auto
    then show ?thesis
      using fold_upd_other[of j core_bar_id xs "\<lambda>i. Some new_core_bar"]
            fold_upd_other[of j core_bar_id ys "\<lambda>i. None"] by simp
  qed
  then show ?thesis using a
    by (auto simp: same_except_def rebuild_core_bars_def split: option.splits)
qed

lemma same_except_set_core_bar:
  "range core_bar_id \<subseteq> D \<Longrightarrow> same_except D C M s (set_core_bar iu s)"
  by (auto simp: same_except_def set_core_bar_def Let_def split: option.splits)

lemma same_except_fold:
  "(\<And>x s. same_except D C M s (f x s)) \<Longrightarrow> same_except D C M s (fold f xs s)"
proof (induction xs arbitrary: s)
  case Nil then show ?case by simp
next
  case (Cons x xs)
  have "same_except D C M s (f x s)" using Cons.prems .
  moreover have "same_except D C M (f x s) (fold f xs (f x s))" using Cons.IH Cons.prems .
  ultimately show ?case by (auto intro: same_except_trans)
qed

lemma writes_updateCoreBars [writes_intros]:
  "''cpu-core-bars'' \<in> D \<Longrightarrow> range core_bar_id \<subseteq> D \<Longrightarrow> writes D C M (updateCoreBars perCore)"
proof -
  assume a: "''cpu-core-bars'' \<in> D" "range core_bar_id \<subseteq> D"
  have t: "writes D C M (evaluate (None :: unit option) (\<lambda>u. skip))"
    by (intro writes_intros)
  have r: "writes D C M (effect (rebuild_core_bars n))" for n
    by (simp add: writes_effect same_except_rebuild_core_bars a)
  have f: "writes D C M (effect (fold set_core_bar xs))" for xs
    by (simp add: writes_effect same_except_fold same_except_set_core_bar a)
  have body: "writes D C M (evaluate (get perCore ''length'')
            (\<lambda>len.
               if \<not> truthy len then skip
               else
                 and_then
                   (if \<not> strict_equal (Num (Fin (of_nat (child_count container)))) len
                    then (case perCore of
                            Arr xs \<Rightarrow> effect (rebuild_core_bars (length xs))
                          | _ \<Rightarrow> evaluate (None :: unit option) (\<lambda>u. skip))
                    else skip)
                   (case perCore of
                      Arr xs \<Rightarrow> effect (fold set_core_bar (zip [0..<length xs] xs))
                    | _ \<Rightarrow> evaluate (None :: unit option) (\<lambda>u. skip))))" for container
    by (intro writes_intros; cases perCore; simp add: t r f writes_skip)
  show ?thesis
    unfolding writes_def
  proof
    fix s
    show "same_except D C M s (snd (updateCoreBars perCore s))"
      using body by (cases "document s ''cpu-core-bars''") (auto simp: updateCoreBars_def writes_def)
  qed
qed


lemma writes_throw [writes_intros]: "writes D C M (\<lambda>s. (Throw e, s))"
  by (simp add: writes_def)

lemma writes_case_document:
  "writes D C M f \<Longrightarrow> (\<And>el. writes D C M (g el)) \<Longrightarrow>
   writes D C M (\<lambda>s. case document s i of None \<Rightarrow> f s | Some el \<Rightarrow> g el s)"
  by (auto simp: writes_def split: option.splits)

lemma writes_normal: "writes D C M (\<lambda>s. (Normal, s))"
  by (simp add: writes_def)

lemma writes_updateFansList [writes_intros]:
  "''fans-list'' \<in> D \<Longrightarrow> writes D C M (updateFansList fanData)"
  unfolding writes_def
  by (auto simp: updateFansList_def evaluate_def effect_def skip_def same_except_set_innerHTML
      split: option.splits jsval.splits)

lemma writes_updateProcessList [writes_intros]:
  "''process-list'' \<in> D \<Longrightarrow> writes D C M (updateProcessList processes)"
  unfolding writes_def
  by (auto simp: updateProcessList_def evaluate_def effect_def same_except_set_innerHTML
      split: option.splits jsval.splits)

lemma writes_update_drives [writes_intros]:
  "''sys-drives'' \<in> D \<Longrightarrow> writes D C M (update_drives drives)"
  unfolding writes_def
  by (auto simp: update_drives_def evaluate_def effect_def same_except_set_innerHTML
      split: option.splits jsval.splits)

lemma writes_set_memory_gauge_text [writes_intros]:
  "''memory-gauge'' \<in> D \<Longrightarrow> writes D C M (set_memory_gauge_text v)"
  unfolding set_memory_gauge_text_def
  apply (rule writes_case_document)
   apply (rule writes_normal)
  subgoal for el
    apply (cases "gauge_text el")
     apply (simp add: writes_normal)
    apply simp
    apply (intro writes_intros writes_effect)
    apply (auto simp: same_except_def)
    done
  done

lemma writes_update_cpu: "writes (slice_ids ''cpu'') (slice_charts ''cpu'') False (update_cpu cpu)"
  unfolding update_cpu_def
  by (intro writes_intros; auto simp: slice_ids_def slice_charts_def)

lemma writes_update_gpu: "writes (slice_ids ''gpu'') (slice_charts ''gpu'') False (update_gpu gpu)"
  unfolding update_gpu_def
  by (intro writes_intros; simp add: slice_ids_def slice_charts_def)

lemma writes_totalMemoryGB: "writes D C True (effect (\<lambda>s. s\<lparr>totalMemoryGB := v\<rparr>))"
  by (rule writes_effect) (simp add: same_except_def)

lemma writes_update_memory: "writes (slice_ids ''memory'') (slice_charts ''memory'') True (update_memory mem)"
  unfolding update_memory_def
  by (intro writes_intros writes_totalMemoryGB; simp add: slice_ids_def slice_charts_def)

lemma writes_update_network: "writes (slice_ids ''network'') (slice_charts ''network'') False (update_network net)"
  unfolding update_network_def
  by (intro writes_intros; simp add: slice_ids_def slice_charts_def)

lemma writes_update_ping: "writes (slice_ids ''ping'') (slice_charts ''ping'') False (update_ping ping)"
  unfolding update_ping_def
  by (intro writes_intros; simp add: slice_ids_def slice_charts_def)

lemma writes_update_disk: "writes (slice_ids ''disk'') (slice_charts ''disk'') False (update_disk disk)"
  unfolding update_disk_def
  by (intro writes_intros; simp add: slice_ids_def slice_charts_def)

lemma writes_fans: "writes (slice_ids ''fans'') (slice_charts ''fans'') False (updateFansList fans)"
  by (intro writes_intros; simp add: slice_ids_def slice_charts_def)

lemma writes_processes:
  "writes (slice_ids ''processes'') (slice_charts ''processes'') False (updateProcessList ps)"
  by (intro writes_intros; simp add: slice_ids_def slice_charts_def)

lemma writes_system:
  "writes (slice_ids ''system'') (slice_charts ''system'') False (updateSystemInfo system)"
  unfolding updateSystemInfo_def
  by (intro writes_intros; simp add: slice_ids_def slice_charts_def)


lemma writes_category:
  "(\<And>v. writes D C M (body v)) \<Longrightarrow> writes D C M (category data k body)"
  unfolding category_def by (intro writes_intros; simp)

lemma category_absent:
  "\<not> present data k \<Longrightarrow> snd (category data k body s) = s"
  by (auto simp: present_def category_def evaluate_def skip_def split: option.splits)

lemma writes_category_absent:
  "\<not> present data k \<Longrightarrow> writes D C M (category data k body)"
  by (simp add: writes_def category_absent)

lemma slice_tag:
  "k \<in> set categories \<Longrightarrow> i \<in> slice_ids k \<Longrightarrow>
   take 3 i = take 3 k \<or> (k = ''cpu'' \<and> take 3 i = ''cor'')"
  unfolding categories_def
  by (elim disjE FalseE | simp only: set_simps insert_iff empty_iff)+
     (auto simp: slice_ids_def core_bar_id_def)

lemma category_tag_inject:
  "j \<in> set categories \<Longrightarrow> k \<in> set categories \<Longrightarrow> take 3 j = take 3 k \<Longrightarrow> j = k"
  unfolding categories_def by auto

lemma category_tag_cor: "k \<in> set categories \<Longrightarrow> take 3 k \<noteq> ''cor''"
  unfolding categories_def by auto

lemma slice_ids_disjoint:
  assumes "j \<in> set categories" "k \<in> set categories" "j \<noteq> k"
  shows "slice_ids j \<inter> slice_ids k = {}"
proof -
  have "False" if "i \<in> slice_ids j" "i \<in> slice_ids k" for i
    using slice_tag[OF assms(1) that(1)] slice_tag[OF assms(2) that(2)]
      category_tag_inject[OF assms(1,2)] category_tag_cor[OF assms(1)]
      category_tag_cor[OF assms(2)] assms(3)
    by metis
  then show ?thesis by blast
qed

lemma slice_chart_name: "c \<in> slice_charts k \<Longrightarrow> c = k @ ''-chart''"
  by (simp add: slice_charts_def split: if_splits)

lemma slice_charts_disjoint:
  "j \<noteq> k \<Longrightarrow> slice_charts j \<inter> slice_charts k = {}"
  by (auto dest!: slice_chart_name)

subsection \<open>Absent categories\<close>


lemma cat_step:
  assumes "j \<in> set categories"
    and "\<And>v. writes (slice_ids j) (slice_charts j) (j = ''memory'') (body v)"
  shows "writes (\<Union> (slice_ids ` {k \<in> set categories. present data k}))
           (\<Union> (slice_charts ` {k \<in> set categories. present data k}))
           (present data ''memory'') (category data j body)"
proof (cases "present data j")
  case False
  then show ?thesis by (simp add: writes_category_absent)
next
  case True
  have "writes (slice_ids j) (slice_charts j) (j = ''memory'') (category data j body)"
    using assms(2) by (rule writes_category)
  then show ?thesis
    by (rule writes_mono) (use True assms(1) in auto)
qed

lemma writes_gpu_gate:
  "writes (slice_ids ''gpu'') (slice_charts ''gpu'') (''gpu'' = ''memory'')
     (evaluate (get gpu ''available'') (\<lambda>available. if truthy available then update_gpu gpu else skip))"
  using writes_update_gpu by (intro writes_intros; simp)

lemma writes_updateDashboard_present:
  "writes (\<Union> (slice_ids ` {k \<in> set categories. present data k}))
     (\<Union> (slice_charts ` {k \<in> set categories. present data k}))
     (present data ''memory'') (updateDashboard data)"
  unfolding updateDashboard_def
  apply (intro writes_block_Cons writes_block_Nil)
          apply (rule cat_step; simp add: categories_def writes_update_cpu)
         apply (rule cat_step; simp add: categories_def writes_gpu_gate[simplified])
        apply (rule cat_step; simp add: categories_def writes_update_memory)
       apply (rule cat_step; simp add: categories_def writes_update_network)
      apply (rule cat_step; simp add: categories_def writes_update_ping)
     apply (rule cat_step; simp add: categories_def writes_update_disk)
    apply (rule cat_step; simp add: categories_def writes_fans)
   apply (rule cat_step; simp add: categories_def writes_processes)
  apply (rule cat_step; simp add: categories_def writes_system)
  done

lemma only_present_slices_change:
  "same_except (\<Union> (slice_ids ` {k \<in> set categories. present data k}))
     (\<Union> (slice_charts ` {k \<in> set categories. present data k}))
     (present data ''memory'') s (snd (updateDashboard data s))"
  using writes_updateDashboard_present by (simp add: writes_def)

lemma absent_slice_unchanged:
  assumes "k \<in> set categories" "\<not> present data k"
  shows "slice_unchanged k s (snd (updateDashboard data s))"
proof -
  let ?D = "\<Union> (slice_ids ` {k \<in> set categories. present data k})"
  let ?C = "\<Union> (slice_charts ` {k \<in> set categories. present data k})"
  note w = only_present_slices_change[of data s]
  have d: "i \<notin> ?D" if "i \<in> slice_ids k" for i
  proof
    assume "i \<in> ?D"
    then obtain j where j: "j \<in> set categories" "present data j" "i \<in> slice_ids j" by blast
    with assms(2) have "j \<noteq> k" by blast
    from slice_ids_disjoint[OF j(1) assms(1) this] j(3) that show False by blast
  qed
  have c: "c \<notin> ?C" if "c \<in> slice_charts k" for c
  proof
    assume "c \<in> ?C"
    then obtain j where j: "present data j" "c \<in> slice_charts j" by blast
    with assms(2) have "j \<noteq> k" by blast
    from slice_charts_disjoint[OF this] j(2) that show False by blast
  qed
  have m: "\<not> present data ''memory''" if "k = ''memory''"
    using that assms(2) by simp
  show ?thesis
    using w d c m unfolding slice_unchanged_def same_except_def by blast
qed

lemma toFixed_42: "num_toFixed (Fin 42) 0 = ''42''" by code_simp

lemma updateCoreBars_empty: "updateCoreBars (Arr []) = skip"
  by (rule ext) (simp add: updateCoreBars_def evaluate_def skip_def split: option.splits)

lemma evaluate_Some: "evaluate (Some v) k = k v"
  by (rule ext) (simp add: evaluate_def)

lemma and_then_assoc: "and_then (and_then f g) h = and_then f (and_then g h)"
  by (rule ext) (simp add: and_then_def split: prod.splits completion.splits)

lemma and_then_skip_left: "and_then skip g = g"
  by (rule ext) (simp add: and_then_def skip_def)

lemma and_then_skip_right: "and_then f skip = f"
  by (rule ext) (simp add: and_then_def skip_def split: prod.splits completion.splits)

lemma and_then_effect: "and_then (effect f) g s = g (f s)"
  by (simp add: and_then_def effect_def)

lemma set_text_Some: "set_text i (Some v) = effect (setText i v)"
  by (simp add: set_text_def evaluate_Some)

lemmas run_simps = block_def category_def evaluate_Some and_then_assoc and_then_skip_left
  and_then_skip_right and_then_effect set_text_Some or_else_def

lemma cpu_only_frame:
  "updateDashboard (Obj [(''cpu'', Obj [(''usage'', Num (Fin 42))])]) s =
     updateChart ''cpu-chart'' (Num (Fin 42))
       (setText ''cpu-temp'' (Str ''N/A'')
         (setText ''cpu-threads'' (Str ''--'')
           (setText ''cpu-cores'' (Str ''--'')
             (setText ''cpu-freq'' (Str ''--'')
               (setText ''cpu-usage'' (Str ''42%'')
                 (setText ''cpu-name'' (Str ''CPU'') s))))))"
  by (simp add: updateDashboard_def update_cpu_def run_simps toFixed_42 to_double_42
      updateCoreBars_empty)


lemma document_setText:
  "document (setText i v s) j =
     (if j = i then map_option (\<lambda>e. e\<lparr>textContent := dom_string v\<rparr>) (document s i)
      else document s j)"
  by (simp add: setText_def split: option.splits)

lemma charts_setText [simp]: "charts (setText i v s) = charts s"
  by (simp add: setText_def split: option.splits)

lemma document_updateChart [simp]: "document (snd (updateChart c v s)) = document s"
  by (simp add: updateChart_def split: option.splits list.splits)

lemma charts_updateChart:
  "charts s c = Some ch \<Longrightarrow> datasets ch = d # ds \<Longrightarrow>
   updateChart c v s =
     (Normal, s\<lparr>charts := (charts s)(c \<mapsto>
        \<lparr>datasets = push_shift d v # ds, rendered = push_shift d v # ds\<rparr>)\<rparr>)"
  by (simp add: updateChart_def)

lemma cpu_only_present:
  "present (Obj [(''cpu'', Obj [(''usage'', Num (Fin 42))])]) k \<longleftrightarrow> k = ''cpu''"
  by (simp add: present_def)

text \<open>
  C6. Reducing a frame changes nothing outside the slices of the categories present in
  it, and an absent (or falsy) top-level category leaves its slice of the view-model
  exactly as it was, whatever else the frame holds and whether or not the reducer
  completes. For the frame \<^verbatim>\<open>{"cpu": {"usage": 42}}\<close>: every slice but the CPU's is
  unchanged, the CPU usage display becomes \<^verbatim>\<open>42%\<close> and 42 is pushed into the CPU
  series.
\<close>

theorem absent_category_untouched:
  "same_except (\<Union> (slice_ids ` {k \<in> set categories. present data k}))
     (\<Union> (slice_charts ` {k \<in> set categories. present data k}))
     (present data ''memory'') s (snd (updateDashboard data s)) \<and>
   (\<forall>k \<in> set categories. \<not> present data k \<longrightarrow>
      slice_unchanged k s (snd (updateDashboard data s))) \<and>
   (\<forall>k \<in> set categories. k \<noteq> ''cpu'' \<longrightarrow>
      slice_unchanged k s
        (snd (updateDashboard (Obj [(''cpu'', Obj [(''usage'', Num (Fin 42))])]) s))) \<and>
   document (snd (updateDashboard (Obj [(''cpu'', Obj [(''usage'', Num (Fin 42))])]) s)) ''cpu-usage''
     = map_option (\<lambda>e. e\<lparr>textContent := ''42%''\<rparr>) (document s ''cpu-usage'') \<and>
   (\<forall>c d ds. charts s ''cpu-chart'' = Some c \<and> datasets c = d # ds \<longrightarrow>
      fst (updateDashboard (Obj [(''cpu'', Obj [(''usage'', Num (Fin 42))])]) s) = Normal \<and>
      map_option datasets
        (charts (snd (updateDashboard (Obj [(''cpu'', Obj [(''usage'', Num (Fin 42))])]) s)) ''cpu-chart'')
        = Some (push_shift d (Num (Fin 42)) # ds))"
proof (intro conjI)
  show "same_except (\<Union> (slice_ids ` {k \<in> set categories. present data k}))
     (\<Union> (slice_charts ` {k \<in> set categories. present data k}))
     (present data ''memory'') s (snd (updateDashboard data s))"
    by (rule only_present_slices_change)
  show "\<forall>k \<in> set categories. \<not> present data k \<longrightarrow>
      slice_unchanged k s (snd (updateDashboard data s))"
    using absent_slice_unchanged by blast
  show "\<forall>k \<in> set categories. k \<noteq> ''cpu'' \<longrightarrow>
      slice_unchanged k s
        (snd (updateDashboard (Obj [(''cpu'', Obj [(''usage'', Num (Fin 42))])]) s))"
    using absent_slice_unchanged cpu_only_present by blast
  show "document (snd (updateDashboard (Obj [(''cpu'', Obj [(''usage'', Num (Fin 42))])]) s)) ''cpu-usage''
     = map_option (\<lambda>e. e\<lparr>textContent := ''42%''\<rparr>) (document s ''cpu-usage'')"
    by (simp add: cpu_only_frame document_setText dom_string_def)
  show "\<forall>c d ds. charts s ''cpu-chart'' = Some c \<and> datasets c = d # ds \<longrightarrow>
      fst (updateDashboard (Obj [(''cpu'', Obj [(''usage'', Num (Fin 42))])]) s) = Normal \<and>
      map_option datasets
        (charts (snd (updateDashboard (Obj [(''cpu'', Obj [(''usage'', Num (Fin 42))])]) s)) ''cpu-chart'')
        = Some (push_shift d (Num (Fin 42)) # ds)"
  proof (intro allI impI)
    fix c d ds
    assume a: "charts s ''cpu-chart'' = Some c \<and> datasets c = d # ds"
    let ?s = "setText ''cpu-temp'' (Str ''N/A'')
         (setText ''cpu-threads'' (Str ''--'')
           (setText ''cpu-cores'' (Str ''--'')
             (setText ''cpu-freq'' (Str ''--'')
               (setText ''cpu-usage'' (Str ''42%'')
                 (setText ''cpu-name'' (Str ''CPU'') s)))))"
    have "charts ?s ''cpu-chart'' = Some c" using a by simp
    from charts_updateChart[OF this, of d ds "Num (Fin 42)"] a
    show "fst (updateDashboard (Obj [(''cpu'', Obj [(''usage'', Num (Fin 42))])]) s) = Normal \<and>
      map_option datasets
        (charts (snd (updateDashboard (Obj [(''cpu'', Obj [(''usage'', Num (Fin 42))])]) s)) ''cpu-chart'')
        = Some (push_shift d (Num (Fin 42)) # ds)"
      by (simp add: cpu_only_frame)
  qed
qed

lemma sample_cpu_chart:
  "charts sample_monitor ''cpu-chart'' = Some \<lparr>datasets = [replicate 60 Null], rendered = [replicate 60 Null]\<rparr>"
  by (simp add: sample_monitor_def sample_page_def PCMonitor_def init_def connect_def
        setupCharts_def createChart_def createDualChart_def)

lemma sample_document:
  "document sample_monitor = sample_page"
  by (simp add: sample_monitor_def PCMonitor_def init_def connect_def
        setupCharts_def createChart_def createDualChart_def split: option.splits)

theorem absent_category_untouched_witness:
  "slice_unchanged ''gpu'' sample_monitor
     (snd (updateDashboard (Obj [(''cpu'', Obj [(''usage'', Num (Fin 42))])]) sample_monitor)) \<and>
   map_option textContent
     (document (snd (updateDashboard (Obj [(''cpu'', Obj [(''usage'', Num (Fin 42))])]) sample_monitor))
        ''cpu-usage'') = Some ''42%'' \<and>
   map_option (\<lambda>c. last (hd (datasets c)))
     (charts (snd (updateDashboard (Obj [(''cpu'', Obj [(''usage'', Num (Fin 42))])]) sample_monitor))
        ''cpu-chart'') = Some (Num (Fin 42))"
proof -
  note t = absent_category_untouched[of "Obj [(''cpu'', Obj [(''usage'', Num (Fin 42))])]" sample_monitor]
  have g: "''gpu'' \<in> set categories" by (simp add: categories_def)
  have p: "\<not> present (Obj [(''cpu'', Obj [(''usage'', Num (Fin 42))])]) ''gpu''"
    by (simp add: present_def)
  have 1: "slice_unchanged ''gpu'' sample_monitor
     (snd (updateDashboard (Obj [(''cpu'', Obj [(''usage'', Num (Fin 42))])]) sample_monitor))"
    using t g p by blast
  have 2: "map_option textContent
     (document (snd (updateDashboard (Obj [(''cpu'', Obj [(''usage'', Num (Fin 42))])]) sample_monitor))
        ''cpu-usage'') = Some ''42%''"
    using t by (simp add: sample_document sample_page_def)
  have 3: "map_option datasets
     (charts (snd (updateDashboard (Obj [(''cpu'', Obj [(''usage'', Num (Fin 42))])]) sample_monitor))
        ''cpu-chart'') = Some (push_shift (replicate 60 Null) (Num (Fin 42)) # [])"
    using t sample_cpu_chart by simp
  have "map_option (\<lambda>c. last (hd (datasets c)))
     (charts (snd (updateDashboard (Obj [(''cpu'', Obj [(''usage'', Num (Fin 42))])]) sample_monitor))
        ''cpu-chart'') = Some (Num (Fin 42))"
    using 3 by (auto simp: push_shift_def)
  then show ?thesis using 1 2 by simp
qed

subsection \<open>The connection and the message handler\<close>


lemma writes_updateDashboard: "writes UNIV UNIV True (updateDashboard data)"
  unfolding updateDashboard_def
  apply (intro writes_block_Cons writes_block_Nil writes_category writes_evaluate writes_if writes_skip)
          apply (rule writes_mono[OF writes_update_cpu]; simp)
         apply (rule writes_mono[OF writes_update_gpu]; simp)
        apply (rule writes_mono[OF writes_update_memory]; simp)
       apply (rule writes_mono[OF writes_update_network]; simp)
      apply (rule writes_mono[OF writes_update_ping]; simp)
     apply (rule writes_mono[OF writes_update_disk]; simp)
    apply (rule writes_mono[OF writes_fans]; simp)
   apply (rule writes_mono[OF writes_processes]; simp)
  apply (rule writes_mono[OF writes_system]; simp)
  done

lemma onmessage_connection:
  "sockets (onmessage P payload s) = sockets s \<and> timers (onmessage P payload s) = timers s \<and>
   clock (onmessage P payload s) = clock s \<and> ws (onmessage P payload s) = ws s"
proof (cases "P payload")
  case None
  then show ?thesis by (simp add: onmessage_def)
next
  case (Some data)
  have "same_except UNIV UNIV True s (snd (updateDashboard data s))"
    using writes_updateDashboard by (simp add: writes_def)
  then show ?thesis using Some
    by (auto simp: onmessage_def same_except_def split: prod.splits completion.splits)
qed

lemma updateConnectionStatus_connection [simp]:
  "sockets (updateConnectionStatus b s) = sockets s"
  "timers (updateConnectionStatus b s) = timers s"
  "clock (updateConnectionStatus b s) = clock s"
  by (simp_all add: updateConnectionStatus_def split: option.splits)

lemma filter_update_count:
  "i < length xs \<Longrightarrow>
   length (filter Q (xs[i := y])) + (if Q (xs ! i) then 1 else 0) =
   length (filter Q xs) + (if Q y then 1 else 0)"
proof (induction xs arbitrary: i)
  case Nil then show ?case by simp
next
  case (Cons x xs) then show ?case by (cases i) auto
qed

lemma live_set_ready:
  assumes "ready s i = Some r"
  shows "live_sockets (set_ready i r' s) + (if r \<noteq> Closed then 1 else 0) =
         live_sockets s + (if r' \<noteq> Closed then 1 else 0)"
proof -
  from assms have i: "i < length (sockets s)" and r: "snd (sockets s ! i) = r"
    by (auto simp: ready_def split: if_splits)
  show ?thesis
    using filter_update_count[OF i, of "\<lambda>c. snd c \<noteq> Closed" "(fst (sockets s ! i), r')"] r
    by (simp add: live_sockets_def set_ready_def)
qed

lemma set_ready_other [simp]:
  "timers (set_ready i r s) = timers s" "clock (set_ready i r s) = clock s"
  by (simp_all add: set_ready_def)

lemma live_onopen [simp]: "live_sockets (onopen s) = live_sockets s"
  by (simp add: live_sockets_def onopen_def)

lemma live_onclose [simp]: "live_sockets (onclose s) = live_sockets s"
  by (simp add: live_sockets_def onclose_def Let_def)

lemma live_connect [simp]: "live_sockets (connect s) = Suc (live_sockets s)"
  by (simp add: live_sockets_def connect_def)

lemma timers_onopen [simp]: "timers (onopen s) = timers s" "clock (onopen s) = clock s"
  by (simp_all add: onopen_def)

lemma timers_onclose [simp]:
  "timers (onclose s) = timers s @ [clock s + 2000]" "clock (onclose s) = clock s"
  by (simp_all add: onclose_def Let_def)

lemma set_remove_nth: "set (take k xs @ drop (Suc k) xs) \<subseteq> set xs"
  by (auto dest: in_set_takeD in_set_dropD)

lemma live_onmessage [simp]: "live_sockets (onmessage P payload s) = live_sockets s"
  by (simp add: live_sockets_def onmessage_connection)

lemma deliver_in_flight:
  assumes "deliver P e s = Some s'" "live_sockets s + length (timers s) = 1"
  shows "live_sockets s' + length (timers s') = 1"
proof (cases e)
  case (SocketOpen i)
  with assms(1) have r: "ready s i = Some Connecting" and s': "s' = onopen (set_ready i Opened s)"
    by (auto split: if_splits)
  from live_set_ready[OF r, of Opened] assms(2) show ?thesis
    by (simp add: s')
next
  case (SocketClose i)
  with assms(1) obtain r where r: "ready s i = Some r" "r \<noteq> Closed"
    and s': "s' = onclose (set_ready i Closed s)"
    by (auto split: if_splits)
  from live_set_ready[OF r(1), of Closed] r(2)
  have 1: "Suc (live_sockets (set_ready i Closed s)) = live_sockets s" by simp
  with assms(2) have "length (timers s) = 0" "live_sockets (set_ready i Closed s) = 0" by arith+
  then show ?thesis by (simp add: s')
next
  case (SocketError i)
  with assms show ?thesis by (auto simp: onerror_def live_sockets_def split: if_splits)
next
  case (SocketMessage i payload)
  with assms show ?thesis by (auto simp: onmessage_connection split: if_splits)
next
  case (TimerFires k)
  with assms(1) have k: "k < length (timers s)"
    and s': "s' = connect (s\<lparr>timers := take k (timers s) @ drop (Suc k) (timers s)\<rparr>)"
    by (auto split: if_splits)
  from k assms(2) have 0: "live_sockets s = 0" "length (timers s) = 1" by arith+
  have "live_sockets (s\<lparr>timers := take k (timers s) @ drop (Suc k) (timers s)\<rparr>) = live_sockets s"
    by (simp add: live_sockets_def)
  moreover have "timers s' = take k (timers s) @ drop (Suc k) (timers s)"
    by (simp add: s' connect_def)
  ultimately show ?thesis using 0 k by (simp add: s')
next
  case (Elapse d)
  with assms show ?thesis by (auto simp: live_sockets_def)
qed

lemma deliver_all_in_flight:
  "deliver_all P evs s = Some s' \<Longrightarrow> live_sockets s + length (timers s) = 1 \<Longrightarrow>
   live_sockets s' + length (timers s') = 1"
proof (induction evs arbitrary: s)
  case Nil then show ?case by simp
next
  case (Cons e evs)
  then show ?case by (auto split: option.splits dest: deliver_in_flight)
qed

lemma PCMonitor_in_flight:
  "live_sockets (PCMonitor page proto host) + length (timers (PCMonitor page proto host)) = 1"
  by (simp add: PCMonitor_def init_def connect_def live_sockets_def setupCharts_def
      createChart_def createDualChart_def split: option.splits)

lemma deliver_timers_late:
  assumes "deliver P e s = Some s'" "t \<le> clock s" "\<forall>d \<in> set (timers s). t + 2000 \<le> d"
  shows "t \<le> clock s' \<and> (\<forall>d \<in> set (timers s'). t + 2000 \<le> d)"
proof (cases e)
  case (SocketOpen i)
  with assms show ?thesis by (auto split: if_splits)
next
  case (SocketClose i)
  with assms show ?thesis by (auto split: if_splits)
next
  case (SocketError i)
  with assms show ?thesis by (auto simp: onerror_def split: if_splits)
next
  case (SocketMessage i payload)
  with assms show ?thesis by (auto simp: onmessage_connection split: if_splits)
next
  case (TimerFires k)
  with assms(1) have k: "k < length (timers s)" "timers s ! k \<le> clock s"
    and s': "s' = connect (s\<lparr>timers := take k (timers s) @ drop (Suc k) (timers s)\<rparr>)"
    by (auto split: if_splits)
  have "clock s' = clock s" "timers s' = take k (timers s) @ drop (Suc k) (timers s)"
    by (simp_all add: s' connect_def)
  then show ?thesis using assms(2,3) set_remove_nth[of k "timers s"] by auto
next
  case (Elapse d)
  with assms show ?thesis by auto
qed

lemma deliver_all_timers_late:
  "deliver_all P evs s = Some s' \<Longrightarrow> t \<le> clock s \<Longrightarrow> \<forall>d \<in> set (timers s). t + 2000 \<le> d \<Longrightarrow>
   t \<le> clock s' \<and> (\<forall>d \<in> set (timers s'). t + 2000 \<le> d)"
proof (induction evs arbitrary: s)
  case Nil then show ?case by simp
next
  case (Cons e evs)
  from Cons.prems(1) obtain s1 where e: "deliver P e s = Some s1" and r: "deliver_all P evs s1 = Some s'"
    by (auto split: option.splits)
  from deliver_timers_late[OF e Cons.prems(2,3)] Cons.IH[OF r] show ?case by blast
qed


lemma live_ready:
  assumes "ready s i = Some r" "r \<noteq> Closed"
  shows "1 \<le> live_sockets s"
  using live_set_ready[OF assms(1), of Closed] assms(2) by simp

text \<open>
  C5, as amended. The close handler schedules exactly one reconnect timer, due 2000 ms
  after the close, and touches no connection and no other timer; \<^verbatim>\<open>connect()\<close> opens
  one new connection and neither closes an earlier connection nor cancels a timer: the
  code invalidates nothing. On the runs in which \<^verbatim>\<open>connect()\<close> is called by the
  constructor and by a due reconnect timer only, and the browser delivers the events as
  the WebSocket and timer interfaces do (a connection closes once, a timer fires once and
  not before it is due): in every state reached exactly one of a live connection and a
  pending reconnect timer exists (so at most one of each); a close leaves no live
  connection and exactly one timer, due 2000 ms after the close, and no reconnect starts
  before that time; when a timer fires and \<^verbatim>\<open>connect()\<close> starts, no earlier connection
  is live and no other timer is pending, and afterwards the new connection is the only one
  in flight.
\<close>

theorem reconnect_discipline:
  assumes "deliver_all P evs (PCMonitor page proto host) = Some s"
  shows "(\<forall>s0. timers (onclose s0) = timers s0 @ [clock s0 + 2000] \<and>
               sockets (onclose s0) = sockets s0 \<and> clock (onclose s0) = clock s0) \<and>
         (\<forall>s0. sockets (connect s0) = sockets s0 @ [(wsUrl s0, Connecting)] \<and>
               timers (connect s0) = timers s0 \<and> ws (connect s0) = Some (length (sockets s0))) \<and>
         live_sockets s + length (timers s) = 1 \<and>
         (\<forall>i s1. deliver P (SocketClose i) s = Some s1 \<longrightarrow>
            timers s1 = [clock s + 2000] \<and> live_sockets s1 = 0 \<and>
            (\<forall>evs2 s2 k s3.
               deliver_all P evs2 s1 = Some s2 \<and> deliver P (TimerFires k) s2 = Some s3 \<longrightarrow>
               clock s + 2000 \<le> clock s2)) \<and>
         (\<forall>k s1. deliver P (TimerFires k) s = Some s1 \<longrightarrow>
            live_sockets s = 0 \<and> length (timers s) = 1 \<and> timers s1 = [] \<and> live_sockets s1 = 1)"
proof (intro conjI allI impI)
  show "timers (onclose s0) = timers s0 @ [clock s0 + 2000]" for s0 by simp
  show "sockets (onclose s0) = sockets s0" for s0 by (simp add: onclose_def Let_def)
  show "clock (onclose s0) = clock s0" for s0 by simp
  show "sockets (connect s0) = sockets s0 @ [(wsUrl s0, Connecting)]" for s0
    by (simp add: connect_def)
  show "timers (connect s0) = timers s0" for s0 by (simp add: connect_def)
  show "ws (connect s0) = Some (length (sockets s0))" for s0 by (simp add: connect_def)
  show inv: "live_sockets s + length (timers s) = 1"
    using deliver_all_in_flight[OF assms PCMonitor_in_flight] .
  {
    fix i s1
    assume c: "deliver P (SocketClose i) s = Some s1"
    then obtain r where r: "ready s i = Some r" "r \<noteq> Closed"
      and s1: "s1 = onclose (set_ready i Closed s)"
      by (auto split: if_splits)
    from live_ready[OF r] inv have t0: "timers s = []" by (cases "timers s") auto
    show t1: "timers s1 = [clock s + 2000]" by (simp add: s1 t0)
    from deliver_in_flight[OF c inv] t1 show "live_sockets s1 = 0" by simp
    fix evs2 s2 k s3
    assume a: "deliver_all P evs2 s1 = Some s2 \<and> deliver P (TimerFires k) s2 = Some s3"
    have "clock s \<le> clock s1" by (simp add: s1)
    moreover have "\<forall>d \<in> set (timers s1). clock s + 2000 \<le> d" by (simp add: t1)
    ultimately have late: "\<forall>d \<in> set (timers s2). clock s + 2000 \<le> d"
      using deliver_all_timers_late a by blast
    from a have "k < length (timers s2)" "timers s2 ! k \<le> clock s2" by (auto split: if_splits)
    then show "clock s + 2000 \<le> clock s2" using late by (meson nth_mem order_trans)
  }
  {
    fix k s1
    assume f: "deliver P (TimerFires k) s = Some s1"
    then have k: "k < length (timers s)"
      and s1: "s1 = connect (s\<lparr>timers := take k (timers s) @ drop (Suc k) (timers s)\<rparr>)"
      by (auto split: if_splits)
    from k inv show 0: "live_sockets s = 0" and 1: "length (timers s) = 1" by arith+
    show t: "timers s1 = []" using k 1 by (simp add: s1 connect_def)
    from deliver_in_flight[OF f inv] t show "live_sockets s1 = 1" by simp
  }
qed

lemma sample_ready: "ready sample_monitor 0 = Some Connecting"
  by (simp add: sample_monitor_def PCMonitor_def init_def connect_def ready_def setupCharts_def
      createChart_def createDualChart_def split: option.splits)

lemma sample_clock: "clock sample_monitor = 0"
  by (simp add: sample_monitor_def PCMonitor_def init_def connect_def setupCharts_def
      createChart_def createDualChart_def split: option.splits)

lemma sample_open_ready: "ready sample_open 0 = Some Opened"
  using sample_ready
  by (auto simp: sample_open_def onopen_def ready_def set_ready_def split: if_splits)

theorem reconnect_discipline_witness:
  "map_option (\<lambda>s. (live_sockets s, timers s))
     (deliver_all sample_parse [SocketOpen 0, Elapse 5, SocketClose 0] sample_monitor)
   = Some (0, [2005])"
proof -
  let ?S = "sample_open\<lparr>clock := 5\<rparr>"
  have run: "deliver_all sample_parse [SocketOpen 0, Elapse 5] sample_monitor = Some ?S"
    using sample_ready sample_clock by (simp add: sample_open_def)
  have r: "ready ?S 0 = Some Opened"
    using sample_open_ready by (auto simp: ready_def split: if_splits)
  then have close: "deliver sample_parse (SocketClose 0) ?S = Some (onclose (set_ready 0 Closed ?S))"
    by simp
  from reconnect_discipline[OF run[unfolded sample_monitor_def]] close
  have "timers (onclose (set_ready 0 Closed ?S)) = [clock ?S + 2000]"
       "live_sockets (onclose (set_ready 0 Closed ?S)) = 0"
    by blast+
  moreover have "deliver_all sample_parse [SocketOpen 0, Elapse 5, SocketClose 0] sample_monitor
                 = Some (onclose (set_ready 0 Closed ?S))"
    using sample_ready sample_clock r by (simp add: sample_open_def)
  ultimately show ?thesis by simp
qed

lemma connection_setupCharts [simp]:
  "sockets (setupCharts s) = sockets s" "timers (setupCharts s) = timers s"
  "clock (setupCharts s) = clock s" "location_protocol (setupCharts s) = location_protocol s"
  "location_host (setupCharts s) = location_host s"
  by (simp_all add: setupCharts_def createChart_def createDualChart_def split: option.splits)

lemma sample_open_connection:
  "sockets sample_open = [(''ws://localhost:8000/ws'', Opened)]" "timers sample_open = []"
  "clock sample_open = 0"
  by (simp_all add: sample_open_def sample_monitor_def PCMonitor_def init_def connect_def
      onopen_def set_ready_def wsUrl_def)

lemma sockets_onclose [simp]: "sockets (onclose s) = sockets s"
  by (simp add: onclose_def Let_def)

lemma connection_connect [simp]:
  "sockets (connect s) = sockets s @ [(wsUrl s, Connecting)]"
  "timers (connect s) = timers s" "clock (connect s) = clock s"
  by (simp_all add: connect_def)

lemma sockets_set_ready [simp]:
  "sockets (set_ready i r s) = (sockets s)[i := (fst (sockets s ! i), r)]"
  by (simp add: set_ready_def)

text \<open>
  C5 as stated fails: nothing is invalidated. When \<^verbatim>\<open>connect()\<close> (a method of the
  object the page keeps in \<^verbatim>\<open>window.monitor\<close>) is called on the connected sample
  monitor, the open connection stays open beside the new one; when then both close, two
  reconnect timers are pending; and when both have fired, two connections are live.
\<close>

theorem reconnect_not_invalidated:
  "live_sockets sample_open = 1 \<and>
   live_sockets (connect sample_open) = 2 \<and>
   ready (connect sample_open) 0 = Some Opened \<and>
   map_option (\<lambda>s. (live_sockets s, timers s))
     (deliver_all sample_parse [SocketClose 0, SocketClose 1] (connect sample_open))
     = Some (0, [2000, 2000]) \<and>
   map_option (\<lambda>s. (live_sockets s, timers s))
     (deliver_all sample_parse
        [SocketClose 0, SocketClose 1, Elapse 2000, TimerFires 0, TimerFires 0]
        (connect sample_open))
     = Some (2, [])"
  by (simp add: sample_open_connection live_sockets_def ready_def)

text \<open>
  C4. A message that the decoder rejects is logged and dropped: the handler returns, the
  charts, \<^verbatim>\<open>totalMemoryGB\<close> and the document are what they were, and so are the
  sockets and the timers; the connection the message arrived on is still open.
\<close>

theorem malformed_message_dropped:
  assumes "P payload = None" and "ready s i = Some Opened"
  shows "\<exists>s'. deliver P (SocketMessage i payload) s = Some s' \<and>
           charts s' = charts s \<and> totalMemoryGB s' = totalMemoryGB s \<and>
           document s' = document s \<and> ws s' = ws s \<and> sockets s' = sockets s \<and>
           timers s' = timers s \<and> clock s' = clock s \<and> ready s' i = Some Opened \<and>
           console s' = console s @ [''Failed to parse message:'']"
  using assms by (auto simp: onmessage_def ready_def split: if_splits)

theorem malformed_message_dropped_witness:
  "map_option
     (\<lambda>s'. (document s' = document sample_open, charts s' = charts sample_open,
            totalMemoryGB s' = totalMemoryGB sample_open, sockets s' = sockets sample_open,
            ready s' 0))
     (deliver sample_parse (SocketMessage 0 ''not json'') sample_open)
   = Some (True, True, True, True, Some Opened)"
proof -
  have p: "sample_parse ''not json'' = None" by (simp add: sample_parse_def)
  from malformed_message_dropped[of sample_parse "''not json''" sample_open 0, OF p sample_open_ready]
  obtain s' where d: "deliver sample_parse (SocketMessage 0 ''not json'') sample_open = Some s'"
    and f: "charts s' = charts sample_open" "totalMemoryGB s' = totalMemoryGB sample_open"
      "document s' = document sample_open" "sockets s' = sockets sample_open"
      "ready s' 0 = Some Opened"
    by blast
  show ?thesis by (simp del: deliver.simps add: d f)
qed

subsection \<open>The process list\<close>


lemma those_map_Some:
  "(\<And>x. x \<in> set xs \<Longrightarrow> f x = Some (g x)) \<Longrightarrow> those (map f xs) = Some (map g xs)"
  by (induction xs) auto

lemma filter_zip_map: "map fst (filter snd (zip xs (map f xs))) = filter f xs"
  by (induction xs) auto

lemma get_total: "get v k = Some x \<Longrightarrow> \<exists>y. get v k' = Some y"
  by (cases v) auto

lemma get_not_null: "v \<noteq> Null \<Longrightarrow> v \<noteq> Undefined \<Longrightarrow> \<exists>y. get v k = Some y"
  by (cases v) auto

lemma filter_processes_spec:
  assumes "\<forall>p \<in> set ps. p \<noteq> Null \<and> p \<noteq> Undefined"
  shows "filter_processes ps = Some (spec_process_selection ps)"
proof -
  have k: "keep_process p = Some (get p ''name'' \<noteq> Some (Str ''System Idle Process''))"
    if "p \<in> set ps" for p
  proof -
    from assms that have "p \<noteq> Null" "p \<noteq> Undefined" by blast+
    from get_not_null[OF this, of "''name''"] show ?thesis by (auto simp: keep_process_def)
  qed
  have "those (map keep_process ps) =
        Some (map (\<lambda>p. get p ''name'' \<noteq> Some (Str ''System Idle Process'')) ps)"
    using k by (rule those_map_Some)
  then show ?thesis
    by (simp add: filter_processes_def spec_process_selection_def filter_zip_map)
qed

lemma process_entry_Some:
  assumes "get p ''cpu_percent'' = Some (Num c)"
  shows "\<exists>item. process_entry t p = Some item"
proof -
  from get_total[OF assms, of "''memory_percent''"] get_total[OF assms, of "''name''"]
  show ?thesis using assms by (auto simp: process_entry_def Let_def)
qed

lemma those_map_ex:
  "(\<And>x. x \<in> set xs \<Longrightarrow> \<exists>y. f x = Some y) \<Longrightarrow> \<exists>ys. those (map f xs) = Some ys \<and> map Some ys = map f xs"
proof (induction xs)
  case Nil then show ?case by simp
next
  case (Cons x xs)
  then obtain y where "f x = Some y" by auto
  moreover from Cons obtain ys where "those (map f xs) = Some ys \<and> map Some ys = map f xs" by auto
  ultimately show ?case by auto
qed

text \<open>
  Where the code does what the specification says of the process list: when the
  container exists, no entry of the list is \<^verbatim>\<open>null\<close> and every entry to be displayed
  carries a numeric \<^verbatim>\<open>cpu_percent\<close>, the reducer completes and the displayed list is the
  rendering, entry by entry and in order, of the specification's selection (the input
  without the entries named \<^verbatim>\<open>System Idle Process\<close>, cut to its first 8).
\<close>

lemma well_formed_process_list_displayed:
  assumes "document s ''process-list'' = Some el"
    and "\<forall>p \<in> set ps. p \<noteq> Null \<and> p \<noteq> Undefined"
    and "\<forall>p \<in> set (spec_process_selection ps). \<exists>c. get p ''cpu_percent'' = Some (Num c)"
  shows "\<exists>items.
           updateProcessList (Arr ps) s =
             (Normal, set_innerHTML ''process-list'' (Processes items) (length items) s) \<and>
           map Some items = map (process_entry (totalMemoryGB s)) (spec_process_selection ps) \<and>
           filter_processes ps = Some (spec_process_selection ps) \<and>
           length items =
             min 8 (length (filter (\<lambda>p. get p ''name'' \<noteq> Some (Str ''System Idle Process'')) ps))"
proof -
  have sel: "filter_processes ps = Some (spec_process_selection ps)"
    using assms(2) by (rule filter_processes_spec)
  have "\<exists>y. process_entry (totalMemoryGB s) p = Some y" if "p \<in> set (spec_process_selection ps)" for p
  proof -
    from assms(3) that obtain c where "get p ''cpu_percent'' = Some (Num c)" by blast
    then show ?thesis by (rule process_entry_Some)
  qed
  from those_map_ex[of "spec_process_selection ps" "process_entry (totalMemoryGB s)", OF this]
  obtain items where items: "those (map (process_entry (totalMemoryGB s)) (spec_process_selection ps)) = Some items"
    and m: "map Some items = map (process_entry (totalMemoryGB s)) (spec_process_selection ps)"
    by blast
  have "length items = length (spec_process_selection ps)"
    using arg_cong[OF m, of length] by simp
  then have l: "length items =
             min 8 (length (filter (\<lambda>p. get p ''name'' \<noteq> Some (Str ''System Idle Process'')) ps))"
    by (simp add: spec_process_selection_def min.commute)
  have "updateProcessList (Arr ps) s =
             (Normal, set_innerHTML ''process-list'' (Processes items) (length items) s)"
    using assms(1) sel items by (simp add: updateProcessList_def evaluate_def effect_def)
  then show ?thesis using m sel l by blast
qed

lemma sample_process_list: "document sample_monitor ''process-list'' = Some plain"
  by (simp add: sample_document sample_page_def)

lemma process_entry_sample_name:
  "map_option process_name (process_entry t (sample_process n c m)) = Some n"
  by (simp add: process_entry_def sample_process_def Let_def)

text \<open>The idle process and ten others: the eight entries displayed are the first eight others.\<close>

lemma sample_processes_displayed:
  "map_option (\<lambda>e. case innerHTML e of Processes items \<Rightarrow> map process_name items | _ \<Rightarrow> [])
     (document (snd (updateProcessList (Arr sample_processes) sample_monitor)) ''process-list'')
     = Some [''p1'', ''p2'', ''p3'', ''p4'', ''p5'', ''p6'', ''p7'', ''p8'']"
proof -
  have nn: "\<forall>p \<in> set sample_processes. p \<noteq> Null \<and> p \<noteq> Undefined"
    by (simp add: sample_processes_def sample_process_def)
  have sel: "spec_process_selection sample_processes =
     [sample_process ''p1'' 9 50, sample_process ''p2'' 8 1, sample_process ''p3'' 7 1,
      sample_process ''p4'' 6 1, sample_process ''p5'' 5 1, sample_process ''p6'' 4 1,
      sample_process ''p7'' 3 1, sample_process ''p8'' 2 1]"
    by (simp add: spec_process_selection_def sample_processes_def sample_process_def)
  have wf: "\<forall>p \<in> set (spec_process_selection sample_processes).
              \<exists>c. get p ''cpu_percent'' = Some (Num c)"
    unfolding sel by (simp add: sample_process_def)
  from well_formed_process_list_displayed[OF sample_process_list nn wf]
  obtain items where
    u: "updateProcessList (Arr sample_processes) sample_monitor =
          (Normal, set_innerHTML ''process-list'' (Processes items) (length items) sample_monitor)"
    and m: "map Some items =
              map (process_entry (totalMemoryGB sample_monitor)) (spec_process_selection sample_processes)"
    by auto
  from arg_cong[OF m, of "map (map_option process_name)"]
  have "map Some (map process_name items) =
          map Some [''p1'', ''p2'', ''p3'', ''p4'', ''p5'', ''p6'', ''p7'', ''p8'']"
    unfolding sel by (simp add: process_entry_sample_name comp_def)
  then have "map process_name items = [''p1'', ''p2'', ''p3'', ''p4'', ''p5'', ''p6'', ''p7'', ''p8'']"
    by (simp only: inj_map_eq_map[OF inj_Some])
  then show ?thesis
    using sample_process_list by (simp add: u set_innerHTML_def)
qed

text \<open>
  C7 does not hold of the code for every process list. On the list of the idle process,
  an entry without \<^verbatim>\<open>cpu_percent\<close> and a complete entry, the selection is made as the
  specification says (the two entries other than the idle process, in order), but
  rendering the first of them evaluates \<^verbatim>\<open>p.cpu_percent.toFixed(1)\<close> on
  \<^verbatim>\<open>undefined\<close>: \<^verbatim>\<open>updateProcessList\<close> throws a TypeError and the process list on the
  page is not rewritten, so nothing of the selection is displayed.
\<close>

theorem process_list_not_displayed:
  "spec_process_selection
     [sample_process ''System Idle Process'' 90 0,
      Obj [(''name'', Str ''chrome''), (''memory_percent'', Num (Fin 3))],
      sample_process ''code'' 1 2]
   = [Obj [(''name'', Str ''chrome''), (''memory_percent'', Num (Fin 3))],
      sample_process ''code'' 1 2] \<and>
   filter_processes
     [sample_process ''System Idle Process'' 90 0,
      Obj [(''name'', Str ''chrome''), (''memory_percent'', Num (Fin 3))],
      sample_process ''code'' 1 2]
   = Some [Obj [(''name'', Str ''chrome''), (''memory_percent'', Num (Fin 3))],
           sample_process ''code'' 1 2] \<and>
   updateProcessList
     (Arr [sample_process ''System Idle Process'' 90 0,
           Obj [(''name'', Str ''chrome''), (''memory_percent'', Num (Fin 3))],
           sample_process ''code'' 1 2])
     sample_monitor
   = (Throw TypeError, sample_monitor) \<and>
   map_option innerHTML (document sample_monitor ''process-list'') = Some Markup"
proof -
  let ?ps = "[sample_process ''System Idle Process'' 90 0,
              Obj [(''name'', Str ''chrome''), (''memory_percent'', Num (Fin 3))],
              sample_process ''code'' 1 2]"
  have 1: "spec_process_selection ?ps =
             [Obj [(''name'', Str ''chrome''), (''memory_percent'', Num (Fin 3))],
              sample_process ''code'' 1 2]"
    by (simp add: spec_process_selection_def sample_process_def)
  have 2: "filter_processes ?ps =
             Some [Obj [(''name'', Str ''chrome''), (''memory_percent'', Num (Fin 3))],
                   sample_process ''code'' 1 2]"
    by (simp add: filter_processes_def keep_process_def sample_process_def)
  have e: "process_entry t (Obj [(''name'', Str ''chrome''), (''memory_percent'', Num (Fin 3))]) = None"
    for t
    by (simp add: process_entry_def Let_def)
  have 3: "updateProcessList (Arr ?ps) sample_monitor = (Throw TypeError, sample_monitor)"
    using sample_process_list by (simp add: updateProcessList_def 2 e evaluate_def)
  have 4: "map_option innerHTML (document sample_monitor ''process-list'') = Some Markup"
    by (simp add: sample_process_list plain_def)
  show ?thesis using 1 2 3 4 by simp
qed
subsection \<open>Process memory\<close>


lemma to_double_nonneg:
  assumes "0 \<le> r" and "to_double r = Fin d"
  shows "0 \<le> d"
proof (cases "r = 0")
  case True
  with assms(2) show ?thesis by simp
next
  case False
  with assms(1) have "0 < r" by simp
  from to_double_shape[OF this assms(2)] show ?thesis
  proof
    assume "d = 0"
    then show ?thesis by simp
  next
    assume "\<exists>m u. d = of_int m * pow2 u \<and> 0 < m \<and> m \<le> 9007199254740992 \<and> - 1074 \<le> u \<and>
                (m < 4503599627370496 \<longrightarrow> u = - 1074) \<and> u \<le> 971 \<and>
                (u = 971 \<longrightarrow> m < 9007199254740992)"
    then obtain m u where "d = of_int m * pow2 u" and "0 < m" by blast
    then show ?thesis by simp
  qed
qed

lemma to_double_1024: "to_double 1024 = Fin 1024"
  by code_simp

lemma decimal_digits_nonempty: "decimal_digits n \<noteq> []"
  by (subst decimal_digits.simps) simp

lemma fixed_digits_0: "fixed_digits a 0 = decimal_digits \<lfloor>a + 1 / 2\<rfloor>"
proof -
  have "Suc 0 - length (decimal_digits n) = 0" for n
    using decimal_digits_nonempty[of n] by (cases "decimal_digits n") auto
  then show ?thesis by (simp add: fixed_digits_def Let_def)
qed

lemma fixed_digits_1:
  assumes "0 \<le> a"
  shows "fixed_digits a 1 =
           (let n = \<lfloor>a * 10 + 1 / 2\<rfloor>
            in decimal_digits (n div 10) @ ''.'' @ [digit_char (nat (n mod 10))])"
proof -
  define n where "n = \<lfloor>a * 10 + 1 / 2\<rfloor>"
  have n0: "0 \<le> n" using assms by (simp add: n_def)
  have fd: "fixed_digits a 1 =
              (let ds = decimal_digits n;
                   padded = replicate (Suc 1 - length ds) (CHR ''0'') @ ds;
                   k = length padded - 1
               in take k padded @ (if (1::nat) = 0 then '''' else ''.'' @ drop k padded))"
    by (simp only: fixed_digits_def n_def power_one_right)
  show ?thesis
  proof (cases "n < 10")
    case True
    then have d: "decimal_digits n = [digit_char (nat n)]" by (subst decimal_digits.simps) simp
    from True n0 have q: "n div 10 = 0" and r: "n mod 10 = n" by simp_all
    have z: "decimal_digits 0 = ''0''"
      by (subst decimal_digits.simps) (simp add: digit_char_def)
    show ?thesis
      unfolding fd n_def[symmetric] Let_def d q r z by simp
  next
    case False
    then have d: "decimal_digits n = decimal_digits (n div 10) @ [digit_char (nat (n mod 10))]"
      by (subst decimal_digits.simps) simp
    obtain c cs where cs: "decimal_digits (n div 10) = c # cs"
      using decimal_digits_nonempty[of "n div 10"] by (cases "decimal_digits (n div 10)") auto
    show ?thesis
      unfolding fd n_def[symmetric] Let_def d cs by simp
  qed
qed

lemma eight_thousand_MB:
  "num_mul (num_mul (num_div (Fin 50) 100) (Fin 16)) (Fin 1024) = Fin 8192"
  by code_simp

lemma eight_GB: "memory_string (Fin 8192) = ''8.0 GB''"
  by code_simp

lemma memory_35_of_3:
  "to_double 35 = Fin 35 \<and> to_double 3 = Fin 3 \<and>
   to_double (35 / 100) = Fin (3152519739159347 / 9007199254740992) \<and>
   to_double (3152519739159347 / 9007199254740992 * 3) =
     Fin (1182194902184755 / 1125899906842624) \<and>
   to_double (1182194902184755 / 1125899906842624 * 1024) =
     Fin (1182194902184755 / 1099511627776) \<and>
   to_double (1182194902184755 / 1099511627776 / 1024) =
     Fin (1182194902184755 / 1125899906842624)"
  by code_simp

lemma one_point_zero:
  "(let n = \<lfloor>(1182194902184755 / 1125899906842624 :: rat) * 10 + 1 / 2\<rfloor>
    in decimal_digits (n div 10) @ ''.'' @ [digit_char (nat (n mod 10))] @ '' GB'') = ''1.0 GB''"
  by code_simp

lemma memory_50_of_15_7:
  "memory_string (num_mul (num_mul (num_div (Fin 50) 100) (Fin (157 / 10))) (Fin 1024)) = ''7.8 GB''"
  by code_simp

lemma memory_1_of_16:
  "memory_string (num_mul (num_mul (num_div (Fin 1) 100) (Fin 16)) (Fin 1024)) = ''164 MB''"
  by code_simp

text \<open>
  C8. A displayed process entry shows the memory
  \<^verbatim>\<open>memoryMB = memory_percent / 100 * totalMemoryGB * 1024\<close>, computed as JavaScript
  computes it (in doubles, from left to right): as \<^verbatim>\<open>memoryMB / 1024\<close> with one decimal
  and \<^verbatim>\<open>GB\<close> when \<^verbatim>\<open>memoryMB >= 1024\<close>, and otherwise as \<^verbatim>\<open>memoryMB\<close> rounded to
  an integer with \<^verbatim>\<open>MB\<close>. Spelled out with the roundings, for \<^verbatim>\<open>memory_percent\<close> the
  number \<open>m\<close> and \<^verbatim>\<open>totalMemoryGB\<close> the number \<open>t\<close>: when the doubles of \<open>m\<close> and
  \<open>t\<close> are \<open>m'\<close> and \<open>t'\<close>, and \<open>x1\<close>, \<open>x2\<close>, \<open>mb\<close> are the doubles nearest \<open>m' / 100\<close>,
  \<open>x1 * t'\<close> and \<open>x2 * 1024\<close>, then \<^verbatim>\<open>memoryMB\<close> is \<open>mb\<close>; from 1024 on the text is the
  integer nearest ten times the double \<open>g\<close> of \<open>mb / 1024\<close>, with a point before its last
  digit, and \<^verbatim>\<open>GB\<close>; for \<open>0 \<le> mb < 1024\<close> it is the integer nearest \<open>mb\<close> and
  \<^verbatim>\<open>MB\<close>. For \<open>m = 50\<close> and \<open>t = 16\<close> \<^verbatim>\<open>memoryMB\<close> is 8192 and the text is
  \<^verbatim>\<open>8.0 GB\<close>.
\<close>

theorem process_memory_display:
  assumes "get p ''memory_percent'' = Some mp"
    and "get p ''cpu_percent'' = Some (Num c)"
  shows "\<exists>item.
           process_entry totalGB p = Some item \<and>
           process_mem item =
             (let memoryMB =
                    num_mul (num_mul (num_div (to_number mp) 100) (to_number totalGB)) (Fin 1024)
              in if num_ge memoryMB 1024 then num_toFixed (num_div memoryMB 1024) 1 @ '' GB''
                 else num_toFixed memoryMB 0 @ '' MB'') \<and>
           (\<forall>m t m' t' x1 x2 mb.
              mp = Num (Fin m) \<and> totalGB = Num (Fin t) \<and>
              to_double m = Fin m' \<and> to_double t = Fin t' \<and> to_double (m' / 100) = Fin x1 \<and>
              to_double (x1 * t') = Fin x2 \<and> to_double (x2 * 1024) = Fin mb \<longrightarrow>
              num_mul (num_mul (num_div (to_number mp) 100) (to_number totalGB)) (Fin 1024) = Fin mb \<and>
              (\<forall>g. 1024 \<le> mb \<and> to_double (mb / 1024) = Fin g \<and> g < 10 ^ 21 \<longrightarrow>
                 process_mem item =
                   (let n = \<lfloor>g * 10 + 1 / 2\<rfloor>
                    in decimal_digits (n div 10) @ ''.'' @ [digit_char (nat (n mod 10))] @ '' GB'')) \<and>
              (0 \<le> mb \<and> mb < 1024 \<longrightarrow>
                 process_mem item = decimal_digits \<lfloor>mb + 1 / 2\<rfloor> @ '' MB'')) \<and>
           (mp = Num (Fin 50) \<and> totalGB = Num (Fin 16) \<longrightarrow>
              num_mul (num_mul (num_div (to_number mp) 100) (to_number totalGB)) (Fin 1024) = Fin 8192 \<and>
              process_mem item = ''8.0 GB'')"
proof -
  from get_total[OF assms(2), of "''name''"] obtain n where n: "get p ''name'' = Some n" by blast
  let ?MB = "num_mul (num_mul (num_div (to_number mp) 100) (to_number totalGB)) (Fin 1024)"
  let ?item = "\<lparr>process_name = to_string n, process_cpu = num_toFixed c 1 @ ''%'',
                process_mem = memory_string ?MB\<rparr>"
  have e: "process_entry totalGB p = Some ?item"
    using assms n by (simp add: process_entry_def Let_def)
  have 1: "process_mem ?item =
             (let memoryMB = ?MB
              in if num_ge memoryMB 1024 then num_toFixed (num_div memoryMB 1024) 1 @ '' GB''
                 else num_toFixed memoryMB 0 @ '' MB'')"
    by (simp add: memory_string_def Let_def)
  have 2: "?MB = Fin mb \<and>
           (\<forall>g. 1024 \<le> mb \<and> to_double (mb / 1024) = Fin g \<and> g < 10 ^ 21 \<longrightarrow>
              process_mem ?item =
                (let n = \<lfloor>g * 10 + 1 / 2\<rfloor>
                 in decimal_digits (n div 10) @ ''.'' @ [digit_char (nat (n mod 10))] @ '' GB'')) \<and>
           (0 \<le> mb \<and> mb < 1024 \<longrightarrow>
              process_mem ?item = decimal_digits \<lfloor>mb + 1 / 2\<rfloor> @ '' MB'')"
    if h: "mp = Num (Fin m) \<and> totalGB = Num (Fin t) \<and>
           to_double m = Fin m' \<and> to_double t = Fin t' \<and> to_double (m' / 100) = Fin x1 \<and>
           to_double (x1 * t') = Fin x2 \<and> to_double (x2 * 1024) = Fin mb"
    for m t m' t' x1 x2 mb
  proof -
    from h have x1: "to_double x1 = Fin x1" and x2: "to_double x2 = Fin x2"
      and mb: "to_double mb = Fin mb"
      by (auto dest: to_double_idem)
    have a: "num_div (to_number mp) 100 = Fin x1" using h by (simp add: num_div_def)
    have b: "num_mul (Fin x1) (to_number totalGB) = Fin x2"
      using h x1 by (simp add: num_mul_def Let_def)
    have c: "num_mul (Fin x2) (Fin 1024) = Fin mb"
      using h x2 to_double_1024 by (simp add: num_mul_def Let_def)
    have MB: "?MB = Fin mb" by (simp only: a b c)
    have ge: "num_ge (Fin mb) 1024 = (1024 \<le> mb)" using mb by (simp add: num_ge_def)
    have gb: "process_mem ?item =
                (let n = \<lfloor>g * 10 + 1 / 2\<rfloor>
                 in decimal_digits (n div 10) @ ''.'' @ [digit_char (nat (n mod 10))] @ '' GB'')"
      if g: "1024 \<le> mb \<and> to_double (mb / 1024) = Fin g \<and> g < 10 ^ 21" for g
    proof -
      from g have "0 \<le> mb / 1024" by simp
      from to_double_nonneg[OF this] g have g0: "0 \<le> g" by simp
      from g have gg: "to_double g = Fin g" by (auto dest: to_double_idem)
      have d: "num_div (Fin mb) 1024 = Fin g" using mb g by (simp add: num_div_def)
      have t: "num_toFixed (Fin g) 1 =
                 (let n = \<lfloor>g * 10 + 1 / 2\<rfloor>
                  in decimal_digits (n div 10) @ ''.'' @ [digit_char (nat (n mod 10))])"
        unfolding fixed_digits_1[OF g0, symmetric]
        using gg g g0 by (simp add: num_toFixed_def abs_of_nonneg)
      have "process_mem ?item = num_toFixed (Fin g) 1 @ '' GB''"
        using g by (simp add: MB memory_string_def ge d)
      then show ?thesis unfolding t by (simp add: Let_def)
    qed
    have lt: "process_mem ?item = decimal_digits \<lfloor>mb + 1 / 2\<rfloor> @ '' MB''"
      if r: "0 \<le> mb \<and> mb < 1024"
    proof -
      from r have "\<bar>mb\<bar> < 10 ^ 21" by simp
      then have "num_toFixed (Fin mb) 0 = decimal_digits \<lfloor>mb + 1 / 2\<rfloor>"
        using mb r by (simp add: num_toFixed_def fixed_digits_0 abs_of_nonneg)
      then show ?thesis using r by (simp add: MB memory_string_def ge)
    qed
    show ?thesis using MB gb lt by blast
  qed
  have 3: "?MB = Fin 8192 \<and> process_mem ?item = ''8.0 GB''"
    if "mp = Num (Fin 50) \<and> totalGB = Num (Fin 16)"
    using that by (simp add: eight_thousand_MB eight_GB)
  show ?thesis
    apply (intro exI[of _ ?item] conjI)
       apply (rule e)
      apply (rule 1)
     apply (intro allI impI)
     apply (erule 2)
    apply (intro impI)
    apply (erule 3)
    done
qed

theorem process_memory_display_witness:
  "map_option process_mem (process_entry (Num (Fin 16)) (sample_process ''p1'' 9 50)) =
     Some ''8.0 GB'' \<and>
   map_option process_mem (process_entry (Num (Fin 3)) (sample_process ''p1'' 9 35)) =
     Some ''1.0 GB'' \<and>
   map_option process_mem (process_entry (Num (Fin (157 / 10))) (sample_process ''p1'' 9 50)) =
     Some ''7.8 GB'' \<and>
   map_option process_mem (process_entry (Num (Fin 16)) (sample_process ''p1'' 9 1)) =
     Some ''164 MB''"
proof -
  have a: "get (sample_process ''p1'' 9 x) ''memory_percent'' = Some (Num (Fin x))"
    and b: "get (sample_process ''p1'' 9 x) ''cpu_percent'' = Some (Num (Fin 9))" for x
    by (simp_all add: sample_process_def)
  have 1: "map_option process_mem (process_entry (Num (Fin 16)) (sample_process ''p1'' 9 50)) =
     Some ''8.0 GB''"
    using process_memory_display[OF a[of 50] b[of 50], where totalGB = "Num (Fin 16)"] by auto
  from process_memory_display[OF a[of 35] b[of 35], where totalGB = "Num (Fin 3)"]
  obtain item where
    i: "process_entry (Num (Fin 3)) (sample_process ''p1'' 9 35) = Some item"
    and r: "\<forall>m t m' t' x1 x2 mb.
              Num (Fin 35) = Num (Fin m) \<and> Num (Fin 3) = Num (Fin t) \<and>
              to_double m = Fin m' \<and> to_double t = Fin t' \<and> to_double (m' / 100) = Fin x1 \<and>
              to_double (x1 * t') = Fin x2 \<and> to_double (x2 * 1024) = Fin mb \<longrightarrow>
              (\<forall>g. 1024 \<le> mb \<and> to_double (mb / 1024) = Fin g \<and> g < 10 ^ 21 \<longrightarrow>
                 process_mem item =
                   (let n = \<lfloor>g * 10 + 1 / 2\<rfloor>
                    in decimal_digits (n div 10) @ ''.'' @ [digit_char (nat (n mod 10))] @ '' GB''))"
    by blast
  from r[rule_format, of 35 3 35 3 "3152519739159347 / 9007199254740992"
          "1182194902184755 / 1125899906842624" "1182194902184755 / 1099511627776"
          "1182194902184755 / 1125899906842624"] memory_35_of_3
  have "process_mem item =
          (let n = \<lfloor>(1182194902184755 / 1125899906842624 :: rat) * 10 + 1 / 2\<rfloor>
           in decimal_digits (n div 10) @ ''.'' @ [digit_char (nat (n mod 10))] @ '' GB'')"
    by simp
  with i one_point_zero
  have 2: "map_option process_mem (process_entry (Num (Fin 3)) (sample_process ''p1'' 9 35)) =
     Some ''1.0 GB''"
    by simp
  from process_memory_display[OF a[of 50] b[of 50], where totalGB = "Num (Fin (157 / 10))"]
    memory_50_of_15_7
  have 3: "map_option process_mem
             (process_entry (Num (Fin (157 / 10))) (sample_process ''p1'' 9 50)) = Some ''7.8 GB''"
    by (auto simp: memory_string_def Let_def)
  from process_memory_display[OF a[of 1] b[of 1], where totalGB = "Num (Fin 16)"] memory_1_of_16
  have 4: "map_option process_mem (process_entry (Num (Fin 16)) (sample_process ''p1'' 9 1)) =
     Some ''164 MB''"
    by (auto simp: memory_string_def Let_def)
  show ?thesis using 1 2 3 4 by blast
qed

subsection \<open>The memory branch\<close>


lemma writes_document:
  "writes D C M f \<Longrightarrow> i \<notin> D \<Longrightarrow> document (snd (f s)) i = document s i"
  by (simp add: writes_def same_except_def)

lemma writes_charts:
  "writes D C M f \<Longrightarrow> c \<notin> C \<Longrightarrow> charts (snd (f s)) c = charts s c"
  by (simp add: writes_def same_except_def)

lemma document_updateMiniGauge_other:
  "j \<noteq> i \<Longrightarrow> document (updateMiniGauge i v s) j = document s j"
  by (simp add: updateMiniGauge_def Let_def split: option.splits)

lemma number_or_missing_cases:
  "number_or_missing v \<Longrightarrow> v = Undefined \<or> v = Null \<or> (\<exists>x. v = Num x)"
  by (cases v) (simp_all add: number_or_missing_def)

lemma or_else_number:
  "number_or_missing v \<Longrightarrow> \<exists>x. or_else v (Num (Fin 0)) = Num x"
  by (auto simp: or_else_def dest: number_or_missing_cases)

lemma opt_toFixed_number:
  "number_or_missing v \<Longrightarrow> \<exists>r. opt_toFixed v d = Some r"
  by (auto dest: number_or_missing_cases)

text \<open>
  C10. In the memory branch, when \<^verbatim>\<open>slots_used\<close> is defined and \<^verbatim>\<open>slots_total\<close> is
  the number \<open>n\<close>, the slot display is \<^verbatim>\<open>slots_used\<close> as it came, a slash, and
  \<open>min n 4\<close>: a total above 4 is shown as 4. (The fields formatted before it, percent,
  used and total, are numbers or missing, so that the branch gets that far.)
\<close>

theorem memory_slots_capped:
  assumes "get mem ''percent'' = Some pv" and "number_or_missing pv"
    and "get mem ''used'' = Some uv" and "number_or_missing uv"
    and "get mem ''total'' = Some tv" and "number_or_missing tv"
    and "get mem ''slots_used'' = Some su" and "su \<noteq> Undefined"
    and "get mem ''slots_total'' = Some (Num (Fin n))"
    and "document s ''mem-slots'' = Some el"
  shows "map_option textContent (document (snd (update_memory mem s)) ''mem-slots'')
           = Some (to_string su @ ''/'' @ string_of_num (Fin (min n 4))) \<and>
         (4 < n \<longrightarrow>
            map_option textContent (document (snd (update_memory mem s)) ''mem-slots'')
              = Some (to_string su @ ''/4''))"
proof -
  from or_else_number[OF assms(2)] obtain x where x: "or_else pv (Num (Fin 0)) = Num x" by blast
  from opt_toFixed_number[OF assms(4)] obtain uf where uf: "opt_toFixed uv 1 = Some uf" by blast
  from opt_toFixed_number[OF assms(6)] obtain tf where tf: "opt_toFixed tv 0 = Some tf" by blast
  from get_total[OF assms(1), of "''speed''"] obtain sp where sp: "get mem ''speed'' = Some sp" by blast
  from get_total[OF assms(1), of "''type''"] obtain ty where ty: "get mem ''type'' = Some ty" by blast
  let ?slots = "Str (to_string su @ ''/'' @ string_of_num (math_min (Fin n) 4))"
  let ?s1 = "setText ''mem-slots'' ?slots
              (setText ''mem-type'' (or_else ty (Str ''--''))
                (setText ''mem-speed'' (if truthy sp then Str (to_string sp @ '' MHz'') else Str ''--'')
                  (setText ''mem-used-total''
                     (Str (to_string (or_else uf (Num (Fin 0))) @ '' / '' @
                           to_string (or_else tf (Num (Fin 0))) @ '' GB''))
                    (setText ''mem-pct'' (Str (num_toFixed x 0 @ ''%''))
                      (s\<lparr>totalMemoryGB := or_else tv (Num (Fin 0))\<rparr>)))))"
  have run: "update_memory mem s =
               and_then (set_memory_gauge_text (Num x)) (updateChart ''memory-chart'' (Num x))
                 (updateMiniGauge ''memory-gauge'' (Num x) ?s1)"
    using assms(1,3,5,7,8,9) x uf tf sp ty
    by (simp add: update_memory_def run_simps del: or_else_def)
  have tail: "writes {''memory-gauge''} {''memory-chart''} False
                (and_then (set_memory_gauge_text (Num x)) (updateChart ''memory-chart'' (Num x)))"
    by (intro writes_intros; simp)
  have "document (snd (update_memory mem s)) ''mem-slots'' =
        document (updateMiniGauge ''memory-gauge'' (Num x) ?s1) ''mem-slots''"
    unfolding run by (rule writes_document[OF tail]) simp
  also have "\<dots> = document ?s1 ''mem-slots''"
    by (rule document_updateMiniGauge_other) simp
  also have "\<dots> = Some (el\<lparr>textContent := to_string su @ ''/'' @ string_of_num (Fin (min n 4))\<rparr>)"
    using assms(10) by (simp add: document_setText dom_string_def)
  finally have d: "map_option textContent (document (snd (update_memory mem s)) ''mem-slots'')
           = Some (to_string su @ ''/'' @ string_of_num (Fin (min n 4)))"
    by simp
  have four: "string_of_num (Fin (min n 4)) = ''4''" if "4 < n"
  proof -
    from that have "min n 4 = 4" by simp
    moreover have "string_of_num (Fin 4) = ''4''" by code_simp
    ultimately show ?thesis by (simp only:)
  qed
  have "map_option textContent (document (snd (update_memory mem s)) ''mem-slots'')
              = Some (to_string su @ ''/4'')" if "4 < n"
    by (simp only: d four[OF that] append.simps)
  then show ?thesis using d by blast
qed

theorem memory_slots_capped_witness:
  "map_option textContent
     (document
        (snd (update_memory (Obj [(''slots_used'', Num (Fin 2)), (''slots_total'', Num (Fin 8))])
               sample_monitor))
        ''mem-slots'')
   = Some (to_string (Num (Fin 2)) @ ''/4'')"
proof -
  let ?mem = "Obj [(''slots_used'', Num (Fin 2)), (''slots_total'', Num (Fin 8))]"
  have m: "number_or_missing Undefined" by (simp add: number_or_missing_def)
  have d: "document sample_monitor ''mem-slots'' = Some plain"
    by (simp add: sample_document sample_page_def)
  from memory_slots_capped[of ?mem Undefined Undefined Undefined "Num (Fin 2)" 8 sample_monitor plain,
      OF _ m _ m _ m _ _ _ d]
  show ?thesis by simp
qed

subsection \<open>The CPU branch and missing fields\<close>


lemma toFixed_number:
  "number_or_missing v \<Longrightarrow> truthy v \<Longrightarrow> toFixed v d = Some (num_toFixed (to_number v) d)"
  by (auto dest: number_or_missing_cases)

lemma toFixed_or_else_number:
  "number_or_missing v \<Longrightarrow>
   toFixed (or_else v (Num (Fin 0))) d = Some (num_toFixed (to_number (or_else v (Num (Fin 0)))) d)"
  by (auto simp: or_else_def dest: number_or_missing_cases)

lemma zero_fixed: "num_toFixed (Fin 0) 0 = ''0''"
  by code_simp

lemma scalar_not_core_bar:
  "''cpu-usage'' \<notin> range core_bar_id" "''cpu-freq'' \<notin> range core_bar_id"
  "''cpu-temp'' \<notin> range core_bar_id" "''cpu-l2'' \<notin> range core_bar_id"
  "''cpu-l3'' \<notin> range core_bar_id"
  by (auto simp: core_bar_id_def)

lemma updateCoreBars_array: "fst (updateCoreBars (Arr xs) s) = Normal"
  by (simp add: updateCoreBars_def evaluate_def skip_def and_then_def effect_def
      split: option.splits)

lemma charts_updateCoreBars: "charts (snd (updateCoreBars perCore s)) = charts s"
proof
  fix c
  have "writes UNIV {} False (updateCoreBars perCore)" by (intro writes_intros) simp_all
  from writes_charts[OF this, of c s] show "charts (snd (updateCoreBars perCore s)) c = charts s c"
    by simp
qed

lemma cpu_sample_texts:
  "truthy (Num (Fin (25 / 2))) \<and> truthy (Num (Fin 3650)) \<and> truthy (Num (Fin (111 / 2))) \<and>
   truthy (Num (Fin 2048)) \<and>
   num_toFixed (Fin (25 / 2)) 0 = ''13'' \<and>
   num_toFixed (num_div (Fin 3650) 1000) 1 = ''3.6'' \<and>
   num_toFixed (Fin (111 / 2)) 0 = ''56'' \<and>
   num_toFixed (num_div (Fin 2048) 1024) 1 = ''2.0''"
  by code_simp

text \<open>
  C9, as amended. For a frame whose CPU category is present, with \<^verbatim>\<open>usage\<close> and
  \<^verbatim>\<open>temperature\<close> each a number, \<^verbatim>\<open>null\<close> or absent and \<^verbatim>\<open>per_core\<close> an array,
  \<^verbatim>\<open>null\<close> or absent: the usage display is always rewritten, to
  \<^verbatim>\<open>(usage || 0).toFixed(0)\<close> and \<^verbatim>\<open>%\<close>, so a missing, null or zero usage shows
  \<^verbatim>\<open>0%\<close>; the frequency display is always rewritten, to
  \<^verbatim>\<open>(frequency / 1000).toFixed(1)\<close> and \<^verbatim>\<open>GHz\<close> when the field is truthy and to
  \<^verbatim>\<open>--\<close> otherwise; the temperature display is always rewritten, to
  \<^verbatim>\<open>temperature.toFixed(0)\<close> and the degree sign and \<^verbatim>\<open>C\<close> when the field is
  truthy and to \<^verbatim>\<open>N/A\<close> otherwise; the L2 and L3 cache displays are rewritten (to the
  field divided by 1024, with one decimal and with none, and \<^verbatim>\<open>MB\<close>) when their field
  is truthy and are left as they were otherwise; and \<^verbatim>\<open>usage || 0\<close>, which is 0 for a
  missing, null or zero usage, is pushed into the CPU series, the branch completing
  normally when the CPU chart has a series.
\<close>

theorem cpu_scalar_policy:
  assumes "get cpu ''usage'' = Some uv" and "number_or_missing uv"
    and "get cpu ''temperature'' = Some tv" and "number_or_missing tv"
    and "get cpu ''per_core'' = Some pc" and "pc = Undefined \<or> pc = Null \<or> (\<exists>xs. pc = Arr xs)"
    and "get cpu ''frequency'' = Some fv"
    and "get cpu ''l2_cache_kb'' = Some l_two" and "get cpu ''l3_cache_kb'' = Some l_three"
  shows "document (snd (update_cpu cpu s)) ''cpu-usage'' =
           map_option
             (\<lambda>e. e\<lparr>textContent := num_toFixed (to_number (or_else uv (Num (Fin 0)))) 0 @ ''%''\<rparr>)
             (document s ''cpu-usage'') \<and>
         (\<not> truthy uv \<longrightarrow>
            or_else uv (Num (Fin 0)) = Num (Fin 0) \<and>
            document (snd (update_cpu cpu s)) ''cpu-usage'' =
              map_option (\<lambda>e. e\<lparr>textContent := ''0%''\<rparr>) (document s ''cpu-usage'')) \<and>
         document (snd (update_cpu cpu s)) ''cpu-freq'' =
           map_option
             (\<lambda>e. e\<lparr>textContent :=
                      (if truthy fv then num_toFixed (num_div (to_number fv) 1000) 1 @ '' GHz''
                       else ''--'')\<rparr>)
             (document s ''cpu-freq'') \<and>
         document (snd (update_cpu cpu s)) ''cpu-temp'' =
           map_option
             (\<lambda>e. e\<lparr>textContent :=
                      (if truthy tv then num_toFixed (to_number tv) 0 @ [CHR 0xB0, CHR ''C'']
                       else ''N/A'')\<rparr>)
             (document s ''cpu-temp'') \<and>
         document (snd (update_cpu cpu s)) ''cpu-l2'' =
           (if truthy l_two
            then map_option
                   (\<lambda>e. e\<lparr>textContent := num_toFixed (num_div (to_number l_two) 1024) 1 @ '' MB''\<rparr>)
                   (document s ''cpu-l2'')
            else document s ''cpu-l2'') \<and>
         document (snd (update_cpu cpu s)) ''cpu-l3'' =
           (if truthy l_three
            then map_option
                   (\<lambda>e. e\<lparr>textContent := num_toFixed (num_div (to_number l_three) 1024) 0 @ '' MB''\<rparr>)
                   (document s ''cpu-l3'')
            else document s ''cpu-l3'') \<and>
         (\<forall>c d ds.
            charts s ''cpu-chart'' = Some c \<and> datasets c = d # ds \<longrightarrow>
            fst (update_cpu cpu s) = Normal \<and>
            map_option datasets (charts (snd (update_cpu cpu s)) ''cpu-chart'') =
              Some (push_shift d (or_else uv (Num (Fin 0))) # ds))"
proof -
  from get_total[OF assms(1), of "''name''"] obtain nm where nm: "get cpu ''name'' = Some nm" by blast
  from get_total[OF assms(1), of "''cores''"] obtain co where co: "get cpu ''cores'' = Some co" by blast
  from get_total[OF assms(1), of "''threads''"] obtain th where th: "get cpu ''threads'' = Some th" by blast
  note pc = assms(5)
  let ?u = "or_else uv (Num (Fin 0))"
  let ?s1 = "setText ''cpu-temp''
               (if truthy tv then Str (num_toFixed (to_number tv) 0 @ [CHR 0xB0, CHR ''C''])
                else Str ''N/A'')
              (setText ''cpu-threads'' (or_else th (Str ''--''))
                (setText ''cpu-cores'' (or_else co (Str ''--''))
                  (setText ''cpu-freq''
                     (if truthy fv then Str (num_toFixed (num_div (to_number fv) 1000) 1 @ '' GHz'')
                      else Str ''--'')
                    (setText ''cpu-usage'' (Str (num_toFixed (to_number ?u) 0 @ ''%''))
                      (setText ''cpu-name'' (or_else nm (Str ''CPU'')) s)))))"
  let ?s2 = "if truthy l_two
             then setText ''cpu-l2'' (Str (num_toFixed (num_div (to_number l_two) 1024) 1 @ '' MB'')) ?s1
             else ?s1"
  let ?s3 = "if truthy l_three
             then setText ''cpu-l3'' (Str (num_toFixed (num_div (to_number l_three) 1024) 0 @ '' MB'')) ?s2
             else ?s2"
  let ?tail = "and_then (updateCoreBars (or_else pc (Arr []))) (updateChart ''cpu-chart'' ?u)"
  have run: "update_cpu cpu s = ?tail ?s3"
    using assms(1,3,7,8,9) nm co th pc toFixed_or_else_number[OF assms(2), of 0]
      toFixed_number[OF assms(4), of 0]
    by (simp add: update_cpu_def run_simps del: or_else_def)
  have tail: "writes ({''cpu-core-bars''} \<union> range core_bar_id) {''cpu-chart''} False ?tail"
    by (intro writes_intros; auto)
  have look: "document (snd (update_cpu cpu s)) i = document ?s3 i"
    if "i \<noteq> ''cpu-core-bars''" "i \<notin> range core_bar_id" for i
    unfolding run using that by (intro writes_document[OF tail]) simp
  have u0: "?u = Num (Fin 0)" if "\<not> truthy uv"
    using that by (simp add: or_else_def)
  have 1: "document (snd (update_cpu cpu s)) ''cpu-usage'' =
           map_option
             (\<lambda>e. e\<lparr>textContent := num_toFixed (to_number ?u) 0 @ ''%''\<rparr>)
             (document s ''cpu-usage'')"
    by (subst look) (simp_all add: scalar_not_core_bar document_setText dom_string_def)
  have 2: "?u = Num (Fin 0) \<and>
           document (snd (update_cpu cpu s)) ''cpu-usage'' =
              map_option (\<lambda>e. e\<lparr>textContent := ''0%''\<rparr>) (document s ''cpu-usage'')"
    if "\<not> truthy uv"
    using 1 u0[OF that] zero_fixed by simp
  have 3: "document (snd (update_cpu cpu s)) ''cpu-freq'' =
           map_option
             (\<lambda>e. e\<lparr>textContent :=
                      (if truthy fv then num_toFixed (num_div (to_number fv) 1000) 1 @ '' GHz''
                       else ''--'')\<rparr>)
             (document s ''cpu-freq'')"
    by (subst look) (simp_all add: scalar_not_core_bar document_setText dom_string_def)
  have 4: "document (snd (update_cpu cpu s)) ''cpu-temp'' =
           map_option
             (\<lambda>e. e\<lparr>textContent :=
                      (if truthy tv then num_toFixed (to_number tv) 0 @ [CHR 0xB0, CHR ''C'']
                       else ''N/A'')\<rparr>)
             (document s ''cpu-temp'')"
    by (subst look) (simp_all add: scalar_not_core_bar document_setText dom_string_def)
  have 5: "document (snd (update_cpu cpu s)) ''cpu-l2'' =
           (if truthy l_two
            then map_option
                   (\<lambda>e. e\<lparr>textContent := num_toFixed (num_div (to_number l_two) 1024) 1 @ '' MB''\<rparr>)
                   (document s ''cpu-l2'')
            else document s ''cpu-l2'')"
    by (subst look) (simp_all add: scalar_not_core_bar document_setText dom_string_def)
  have 6: "document (snd (update_cpu cpu s)) ''cpu-l3'' =
           (if truthy l_three
            then map_option
                   (\<lambda>e. e\<lparr>textContent := num_toFixed (num_div (to_number l_three) 1024) 0 @ '' MB''\<rparr>)
                   (document s ''cpu-l3'')
            else document s ''cpu-l3'')"
    by (subst look) (simp_all add: scalar_not_core_bar document_setText dom_string_def)
  have 7: "fst (update_cpu cpu s) = Normal \<and>
           map_option datasets (charts (snd (update_cpu cpu s)) ''cpu-chart'') =
             Some (push_shift d ?u # ds)"
    if h: "charts s ''cpu-chart'' = Some c \<and> datasets c = d # ds" for c d ds
  proof -
    from assms(6) obtain ys where ys: "or_else pc (Arr []) = Arr ys"
      by (auto simp: or_else_def)
    obtain r s' where rs: "updateCoreBars (Arr ys) ?s3 = (r, s')"
      by (cases "updateCoreBars (Arr ys) ?s3")
    from updateCoreBars_array[of ys ?s3] rs have r: "r = Normal" by simp
    from charts_updateCoreBars[of "Arr ys" ?s3] rs have "charts s' = charts ?s3" by simp
    then have cs: "charts s' = charts s" by simp
    have t: "update_cpu cpu s = updateChart ''cpu-chart'' ?u s'"
      unfolding run ys by (simp add: and_then_def rs r)
    from h cs have "charts s' ''cpu-chart'' = Some c" and "datasets c = d # ds" by simp_all
    from charts_updateChart[OF this, of ?u] show ?thesis unfolding t by simp
  qed
  show ?thesis
    apply (intro conjI allI impI)
           apply (rule 1)
          apply (erule 2[THEN conjunct1])
         apply (erule 2[THEN conjunct2])
        apply (rule 3)
       apply (rule 4)
      apply (rule 5)
     apply (rule 6)
    apply (erule 7[THEN conjunct1])
    apply (erule 7[THEN conjunct2])
    done
qed

theorem cpu_scalar_policy_witness:
  "(let frame = Obj [(''usage'', Num (Fin (25 / 2))), (''frequency'', Num (Fin 3650)),
                     (''temperature'', Num (Fin (111 / 2))), (''l2_cache_kb'', Num (Fin 2048))];
        s' = snd (update_cpu frame sample_monitor)
    in map_option textContent (document s' ''cpu-usage'') = Some ''13%'' \<and>
       map_option textContent (document s' ''cpu-freq'') = Some ''3.6 GHz'' \<and>
       map_option textContent (document s' ''cpu-temp'') = Some (''56'' @ [CHR 0xB0, CHR ''C'']) \<and>
       map_option textContent (document s' ''cpu-l2'') = Some ''2.0 MB'' \<and>
       fst (update_cpu frame sample_monitor) = Normal \<and>
       map_option (\<lambda>c. last (hd (datasets c))) (charts s' ''cpu-chart'') =
         Some (Num (Fin (25 / 2)))) \<and>
   (let s' = snd (update_cpu (Obj []) sample_monitor)
    in map_option textContent (document s' ''cpu-usage'') = Some ''0%'' \<and>
       map_option textContent (document s' ''cpu-freq'') = Some ''--'' \<and>
       map_option textContent (document s' ''cpu-temp'') = Some ''N/A'' \<and>
       map_option textContent (document s' ''cpu-l2'') = Some ''old'' \<and>
       map_option (\<lambda>c. last (hd (datasets c))) (charts s' ''cpu-chart'') = Some (Num (Fin 0)))"
proof -
  let ?frame = "Obj [(''usage'', Num (Fin (25 / 2))), (''frequency'', Num (Fin 3650)),
                     (''temperature'', Num (Fin (111 / 2))), (''l2_cache_kb'', Num (Fin 2048))]"
  have m: "number_or_missing Undefined" "number_or_missing (Num x)" for x
    by (simp_all add: number_or_missing_def)
  have t: "\<not> truthy Undefined" by simp
  note tx = cpu_sample_texts
  have o: "or_else (Num (Fin (25 / 2))) (Num (Fin 0)) = Num (Fin (25 / 2))"
    using tx by (simp add: or_else_def)
  have ch: "charts sample_monitor ''cpu-chart'' =
              Some \<lparr>datasets = [replicate 60 Null], rendered = [replicate 60 Null]\<rparr> \<and>
            datasets \<lparr>datasets = [replicate 60 Null], rendered = [replicate 60 Null]\<rparr> =
              replicate 60 Null # []"
    using sample_cpu_chart by simp
  note p = cpu_scalar_policy[where cpu = ?frame and uv = "Num (Fin (25 / 2))"
      and tv = "Num (Fin (111 / 2))" and pc = Undefined and fv = "Num (Fin 3650)"
      and l_two = "Num (Fin 2048)" and l_three = Undefined and s = sample_monitor,
      OF _ m(2) _ m(2)]
  have p': "document (snd (update_cpu ?frame sample_monitor)) ''cpu-usage'' =
              map_option (\<lambda>e. e\<lparr>textContent := ''13%''\<rparr>) (document sample_monitor ''cpu-usage'') \<and>
            document (snd (update_cpu ?frame sample_monitor)) ''cpu-freq'' =
              map_option (\<lambda>e. e\<lparr>textContent := ''3.6 GHz''\<rparr>) (document sample_monitor ''cpu-freq'') \<and>
            document (snd (update_cpu ?frame sample_monitor)) ''cpu-temp'' =
              map_option (\<lambda>e. e\<lparr>textContent := ''56'' @ [CHR 0xB0, CHR ''C'']\<rparr>)
                (document sample_monitor ''cpu-temp'') \<and>
            document (snd (update_cpu ?frame sample_monitor)) ''cpu-l2'' =
              map_option (\<lambda>e. e\<lparr>textContent := ''2.0 MB''\<rparr>) (document sample_monitor ''cpu-l2'') \<and>
            fst (update_cpu ?frame sample_monitor) = Normal \<and>
            map_option datasets (charts (snd (update_cpu ?frame sample_monitor)) ''cpu-chart'') =
              Some (push_shift (replicate 60 Null) (Num (Fin (25 / 2))) # [])"
    using p ch tx by (simp add: o)
  note q = cpu_scalar_policy[where cpu = "Obj []" and uv = Undefined and tv = Undefined
      and pc = Undefined and fv = Undefined and l_two = Undefined and l_three = Undefined
      and s = sample_monitor, OF _ m(1) _ m(1)]
  have q': "document (snd (update_cpu (Obj []) sample_monitor)) ''cpu-usage'' =
              map_option (\<lambda>e. e\<lparr>textContent := ''0%''\<rparr>) (document sample_monitor ''cpu-usage'') \<and>
            document (snd (update_cpu (Obj []) sample_monitor)) ''cpu-freq'' =
              map_option (\<lambda>e. e\<lparr>textContent := ''--''\<rparr>) (document sample_monitor ''cpu-freq'') \<and>
            document (snd (update_cpu (Obj []) sample_monitor)) ''cpu-temp'' =
              map_option (\<lambda>e. e\<lparr>textContent := ''N/A''\<rparr>) (document sample_monitor ''cpu-temp'') \<and>
            document (snd (update_cpu (Obj []) sample_monitor)) ''cpu-l2'' =
              document sample_monitor ''cpu-l2'' \<and>
            map_option datasets (charts (snd (update_cpu (Obj []) sample_monitor)) ''cpu-chart'') =
              Some (push_shift (replicate 60 Null) (Num (Fin 0)) # [])"
    using q ch by (simp add: or_else_def zero_fixed)
  show ?thesis
    unfolding Let_def
    apply (intro conjI)
              apply (simp add: p'[THEN conjunct1] sample_document sample_page_def plain_def)
             apply (simp add: p'[THEN conjunct2, THEN conjunct1] sample_document sample_page_def plain_def)
            apply (simp add: p'[THEN conjunct2, THEN conjunct2, THEN conjunct1] sample_document
        sample_page_def plain_def)
           apply (simp add: p'[THEN conjunct2, THEN conjunct2, THEN conjunct2, THEN conjunct1]
        sample_document sample_page_def plain_def)
          apply (rule p'[THEN conjunct2, THEN conjunct2, THEN conjunct2, THEN conjunct2, THEN conjunct1])
         apply (insert p'[THEN conjunct2, THEN conjunct2, THEN conjunct2, THEN conjunct2, THEN conjunct2])[1]
         apply (cases "charts (snd (update_cpu ?frame sample_monitor)) ''cpu-chart''")
          apply (simp_all add: push_shift_def)[2]
        apply (simp add: q'[THEN conjunct1] sample_document sample_page_def plain_def)
       apply (simp add: q'[THEN conjunct2, THEN conjunct1] sample_document sample_page_def plain_def)
      apply (simp add: q'[THEN conjunct2, THEN conjunct2, THEN conjunct1] sample_document
        sample_page_def plain_def)
     apply (simp add: q'[THEN conjunct2, THEN conjunct2, THEN conjunct2, THEN conjunct1]
        sample_document sample_page_def plain_def)
    apply (insert q'[THEN conjunct2, THEN conjunct2, THEN conjunct2, THEN conjunct2])[1]
    apply (cases "charts (snd (update_cpu (Obj []) sample_monitor)) ''cpu-chart''")
     apply (simp_all add: push_shift_def)
    done
qed

text \<open>
  C9 as stated fails: on a frame whose CPU category has no \<^verbatim>\<open>usage\<close> field, the usage
  display, which read \<^verbatim>\<open>old\<close>, is rewritten to the number \<^verbatim>\<open>0%\<close>, and 0 is pushed
  into the CPU series.
\<close>

theorem cpu_usage_missing_counterexample:
  "get (Obj []) ''usage'' = Some Undefined \<and>
   map_option textContent (document sample_monitor ''cpu-usage'') = Some ''old'' \<and>
   map_option textContent
     (document (snd (updateDashboard (Obj [(''cpu'', Obj [])]) sample_monitor)) ''cpu-usage'')
     = Some ''0%'' \<and>
   map_option (\<lambda>c. last (hd (datasets c)))
     (charts (snd (updateDashboard (Obj [(''cpu'', Obj [])]) sample_monitor)) ''cpu-chart'')
     = Some (Num (Fin 0))"
proof -
  have run: "updateDashboard (Obj [(''cpu'', Obj [])]) s =
     updateChart ''cpu-chart'' (Num (Fin 0))
       (setText ''cpu-temp'' (Str ''N/A'')
         (setText ''cpu-threads'' (Str ''--'')
           (setText ''cpu-cores'' (Str ''--'')
             (setText ''cpu-freq'' (Str ''--'')
               (setText ''cpu-usage'' (Str ''0%'')
                 (setText ''cpu-name'' (Str ''CPU'') s))))))" for s
    by (simp add: updateDashboard_def update_cpu_def run_simps zero_fixed updateCoreBars_empty)
  have 1: "map_option textContent (document sample_monitor ''cpu-usage'') = Some ''old''"
    by (simp add: sample_document sample_page_def plain_def)
  have 2: "map_option textContent
     (document (snd (updateDashboard (Obj [(''cpu'', Obj [])]) sample_monitor)) ''cpu-usage'')
     = Some ''0%''"
    by (simp add: run document_setText dom_string_def sample_document sample_page_def)
  have "updateChart ''cpu-chart'' (Num (Fin 0)) s =
          (Normal, s\<lparr>charts := (charts s)(''cpu-chart'' \<mapsto>
             \<lparr>datasets = push_shift (replicate 60 Null) (Num (Fin 0)) # [],
              rendered = push_shift (replicate 60 Null) (Num (Fin 0)) # []\<rparr>)\<rparr>)"
    if "charts s ''cpu-chart'' = Some \<lparr>datasets = [replicate 60 Null], rendered = [replicate 60 Null]\<rparr>"
    for s
    using charts_updateChart[OF that, of "replicate 60 Null" "[]" "Num (Fin 0)"] by simp
  then have 3: "map_option (\<lambda>c. last (hd (datasets c)))
     (charts (snd (updateDashboard (Obj [(''cpu'', Obj [])]) sample_monitor)) ''cpu-chart'')
     = Some (Num (Fin 0))"
    using sample_cpu_chart by (simp add: run push_shift_def)
  show ?thesis using 1 2 3 by simp
qed

lemma string_1200: "string_of_num (Fin 1200) = ''1200''"
  by code_simp

text \<open>
  C1 does not hold of the code. A process entry without \<^verbatim>\<open>cpu_percent\<close> makes
  \<^verbatim>\<open>updateProcessList\<close> throw a TypeError out of \<^verbatim>\<open>updateDashboard\<close>, with the page
  left as it was; a process entry without \<^verbatim>\<open>memory_percent\<close> is rendered with the
  memory \<^verbatim>\<open>NaN MB\<close>; a fan entry without \<^verbatim>\<open>percent\<close> is rendered with the speed
  \<^verbatim>\<open>undefined%\<close> instead of falling back to its RPM or the placeholder.
\<close>

theorem missing_process_field_throws:
  "updateDashboard
     (Obj [(''processes'', Arr [Obj [(''name'', Str ''chrome''), (''memory_percent'', Num (Fin 3))]])])
     sample_monitor
   = (Throw TypeError, sample_monitor) \<and>
   map_option process_mem
     (process_entry (Num (Fin 16)) (Obj [(''name'', Str ''chrome''), (''cpu_percent'', Num (Fin 3))]))
   = Some ''NaN MB'' \<and>
   fan_entry (Obj [(''name'', Str ''CPU Fan''), (''rpm'', Num (Fin 1200))])
   = Some \<lparr>fan_name = ''CPU Fan'', fan_bar_width = ''undefined'',
           fan_speed = [(''fan-percent'', ''undefined%''), (''fan-rpm'', ''1200 RPM'')]\<rparr>"
proof -
  have "updateDashboard
     (Obj [(''processes'', Arr [Obj [(''name'', Str ''chrome''), (''memory_percent'', Num (Fin 3))]])])
     s = (Throw TypeError, s)" if "document s ''process-list'' = Some el" for s el
    using that
    by (simp add: updateDashboard_def run_simps updateProcessList_def filter_processes_def
        keep_process_def process_entry_def evaluate_def Let_def)
  then have 1: "updateDashboard
     (Obj [(''processes'', Arr [Obj [(''name'', Str ''chrome''), (''memory_percent'', Num (Fin 3))]])])
     sample_monitor = (Throw TypeError, sample_monitor)"
    using sample_process_list by blast
  have 2: "map_option process_mem
     (process_entry (Num (Fin 16)) (Obj [(''name'', Str ''chrome''), (''cpu_percent'', Num (Fin 3))]))
   = Some ''NaN MB''"
    by (simp add: process_entry_def Let_def memory_string_def)
  have 3: "fan_entry (Obj [(''name'', Str ''CPU Fan''), (''rpm'', Num (Fin 1200))])
   = Some \<lparr>fan_name = ''CPU Fan'', fan_bar_width = ''undefined'',
           fan_speed = [(''fan-percent'', ''undefined%''), (''fan-rpm'', ''1200 RPM'')]\<rparr>"
    by (simp add: fan_entry_def Let_def string_1200)
  show ?thesis using 1 2 3 by simp
qed

end
